theory Spec2Isabelle
  imports Main
begin

section \<open>Data model of the C-family binary target writer\<close>

text \<open>
  The development embeds \<^verbatim>\<open>src/gn/ninja_c_binary_target_writer.cc\<close>. The classes the
  writer reads (Target, Toolchain, Tool, ConfigValues, SourceFile, OutputFile) are declared in
  headers that are not among the sources; every accessor the writer calls on them is a field
  here, holding the value the accessor returns for the resolved target. The model is the
  release build: \<^verbatim>\<open>DCHECK\<close> and \<^verbatim>\<open>NOTREACHED\<close> compile to nothing, \<^verbatim>\<open>CHECK\<close> ends
  the process.
\<close>

text \<open>An OutputFile is its path string (\<^verbatim>\<open>OutputFile::value()\<close>).\<close>

type_synonym OutputFile = string

datatype SourceFileType =
    SOURCE_UNKNOWN | SOURCE_ASM | SOURCE_C | SOURCE_CPP | SOURCE_H | SOURCE_M | SOURCE_MM
  | SOURCE_MODULEMAP | SOURCE_S | SOURCE_RC | SOURCE_O | SOURCE_DEF | SOURCE_RS | SOURCE_GO
  | SOURCE_SWIFT

text \<open>A SourceFile is its path and the type computed from its extension (\<^verbatim>\<open>GetType()\<close>).\<close>

record SourceFile =
  sf_value :: string
  sf_type :: SourceFileType

definition IsDefType :: "SourceFile \<Rightarrow> bool" where
  "IsDefType sf = (sf_type sf = SOURCE_DEF)"

definition IsModuleMapType :: "SourceFile \<Rightarrow> bool" where
  "IsModuleMapType sf = (sf_type sf = SOURCE_MODULEMAP)"

definition IsObjectType :: "SourceFile \<Rightarrow> bool" where
  "IsObjectType sf = (sf_type sf = SOURCE_O)"

definition IsSwiftType :: "SourceFile \<Rightarrow> bool" where
  "IsSwiftType sf = (sf_type sf = SOURCE_SWIFT)"

text \<open>
  \<^verbatim>\<open>SourceFileTypeSet\<close>: one flag per type (source_file_type.cc); \<^verbatim>\<open>SwiftSourceUsed\<close>
  reads the Swift flag as \<^verbatim>\<open>RustSourceUsed\<close> reads the Rust one.
\<close>

type_synonym SourceFileTypeSet = "SourceFileType set"

definition Get :: "SourceFileTypeSet \<Rightarrow> SourceFileType \<Rightarrow> bool" where
  "Get flags ty = (ty \<in> flags)"

definition RustSourceUsed :: "SourceFileTypeSet \<Rightarrow> bool" where
  "RustSourceUsed flags = Get flags SOURCE_RS"

definition SwiftSourceUsed :: "SourceFileTypeSet \<Rightarrow> bool" where
  "SwiftSourceUsed flags = Get flags SOURCE_SWIFT"

text \<open>
  Tool names are the interned \<^verbatim>\<open>const char*\<close> constants of Tool, CTool and GeneralTool,
  compared by pointer in the writer; \<open>kOtherTool\<close> stands for every other registered name.
\<close>

datatype ToolName =
    kToolNone | kCToolCc | kCToolCxx | kCToolCxxModule | kCToolObjC | kCToolObjCxx
  | kCToolAsm | kCToolSwift | kGeneralToolStamp | kOtherTool string

datatype PrecompiledHeaderType = PCH_NONE | PCH_GCC | PCH_MSVC

datatype ToolCategory = C_Tool PrecompiledHeaderType | General_Tool | Rust_Tool

text \<open>
  A tool as the writer reads it: its category (the manual RTTI of tool.h, with the
  precompiled-header dialect of a CTool) and its output and partial-output pattern lists.
\<close>

record Tool =
  category :: ToolCategory
  outputs :: "string list"
  partial_outputs :: "string list"

datatype Substitution =
    CSubstitutionModuleDeps | CSubstitutionModuleDepsNoSelf
  | CSubstitutionCFlagsC | CSubstitutionCFlagsCc | CSubstitutionCFlagsObjC
  | CSubstitutionCFlagsObjCc | SubstitutionOutputExtension | SubstitutionOutputDir
  | SubstitutionLabelNoToolchain

text \<open>
  The toolchain: its tools by name, the substitutions its tools use, and the tool for the
  target's final output. \<^verbatim>\<open>GetToolAsC\<close> is the lookup followed by \<^verbatim>\<open>AsC()\<close>,
  \<^verbatim>\<open>GetToolForSourceType\<close> the lookup under \<^verbatim>\<open>Tool::GetToolTypeForSourceType\<close>; a tool
  found under a name has that name.
\<close>

record Toolchain =
  tools :: "ToolName \<Rightarrow> Tool option"
  substitution_bits_used :: "Substitution set"

definition precompiled_header_type :: "Tool \<Rightarrow> PrecompiledHeaderType option" where
  "precompiled_header_type tool =
     (case category tool of C_Tool pch \<Rightarrow> Some pch | General_Tool \<Rightarrow> None | Rust_Tool \<Rightarrow> None)"

definition GetToolAsC :: "Toolchain \<Rightarrow> ToolName \<Rightarrow> PrecompiledHeaderType option" where
  "GetToolAsC tc name =
     (case tools tc name of None \<Rightarrow> None | Some tool \<Rightarrow> precompiled_header_type tool)"

datatype OutputType =
    UNKNOWN | GROUP | EXECUTABLE | SHARED_LIBRARY | LOADABLE_MODULE | STATIC_LIBRARY
  | SOURCE_SET | COPY_FILES | ACTION | ACTION_FOREACH | BUNDLE_DATA | CREATE_BUNDLE
  | GENERATED_FILE | RUST_LIBRARY | RUST_PROC_MACRO

datatype ConfigField = cflags_c | cflags_cc | cflags_objc | cflags_objcc | arflags

record ConfigValues =
  has_precompiled_headers :: bool
  precompiled_header :: string
  precompiled_source :: SourceFile

datatype LibFile = LibName string | LibSourceFile SourceFile

fun is_source_file :: "LibFile \<Rightarrow> bool" where
  "is_source_file (LibName n) = False"
| "is_source_file (LibSourceFile f) = True"

text \<open>
  What the writer reads of any target, the emitted one or one of its dependencies.
  \<open>GetOutputFilesForSource\<close> is \<open>None\<close> when the C++ function returns false, and otherwise
  the tool type and the outputs it stores; \<open>label_no_toolchain\<close> is the result of
  \<^verbatim>\<open>SubstitutionWriter::GetTargetSubstitution\<close> for \<^verbatim>\<open>SubstitutionLabelNoToolchain\<close>
  (\<open>None\<close> when it returns false).
\<close>

record TargetCore =
  output_type :: OutputType
  sources :: "SourceFile list"
  source_types_used :: SourceFileTypeSet
  GetOutputFilesForSource :: "SourceFile \<Rightarrow> (ToolName \<times> OutputFile list) option"
  label_no_toolchain :: "string option"
  link_output_file :: OutputFile
  dependency_output_file :: OutputFile
  module_output_file :: OutputFile

record ClassifiedDeps =
  extra_object_files :: "OutputFile list"
  linkable_deps :: "TargetCore list"
  non_linkable_deps :: "TargetCore list"
  framework_deps :: "TargetCore list"
  swiftmodule_deps :: "TargetCore list"

text \<open>
  The emitted target. Besides the accessors of Target, it carries the results of the
  functions of other translation units that the writer calls with this target: the
  substitution writer (\<open>ApplyListToLinkerAsOutputFile\<close>, \<open>ApplyListToCompilerAsOutputFile\<close>),
  \<open>GetPCHOutputFiles\<close>, the classified dependencies and the vectors returned by the two
  stamp helpers of the base writer, the file conversions of the build settings, and the
  three helpers of the PCH extension filter.
\<close>

record Target = TargetCore +
  label_user_visible_name :: string
  defined_from :: string
  toolchain :: Toolchain
  config_values :: ConfigValues
  deps_linked :: "TargetCore list"
  swift_modules :: "TargetCore list"
  all_libs :: "LibFile list"
  IsFinal :: bool
  inherited_libraries :: "TargetCore list"
  builds_swift_module :: bool
  rule_prefix :: string
  tool_type_for_target_final_output :: ToolName
  final_tool_outputs :: "string list"
  classified_deps :: ClassifiedDeps
  inputs_stamp_dep :: "nat \<Rightarrow> OutputFile list"
  input_deps_stamp_dep :: "nat \<Rightarrow> OutputFile list"
  GetPCHOutputFiles :: "ToolName \<Rightarrow> OutputFile list"
  ApplyListToLinkerAsOutputFile :: "ToolName \<Rightarrow> string list \<Rightarrow> OutputFile list"
  ApplyListToCompilerAsOutputFile :: "SourceFile \<Rightarrow> string list \<Rightarrow> OutputFile list"
  AsSourceFile :: "OutputFile \<Rightarrow> SourceFile"
  AsOutputFile :: "SourceFile \<Rightarrow> OutputFile"
  FindExtensionOffset :: "string \<Rightarrow> nat option"
  GetWindowsPCHObjectExtension :: "ToolName \<Rightarrow> string \<Rightarrow> string"
  GetGCCPCHOutputExtension :: "ToolName \<Rightarrow> string"

section \<open>The output stream, the scheduler and fatal stops\<close>

text \<open>
  What \<^verbatim>\<open>out_\<close> receives, in order. A string or \<^verbatim>\<open>std::endl\<close> written by the writer
  itself is kept as such (strings written by one statement are joined); a call of a function of another translation unit that writes to the
  stream is recorded with its arguments: the path writer (\<open>File\<close>, and \<open>CommandFile\<close> for the
  command-escaping one of \<^verbatim>\<open>WriteLibsList\<close>), \<^verbatim>\<open>EscapeStringToStream\<close>, the names of a
  substitution and of a tool, and the writers of the base class. \<open>CompilerBuildLine\<close> is a
  call of \<^verbatim>\<open>WriteCompilerBuildLine\<close>: one build edge with its sources, implicit
  dependencies, order-only dependencies, rule and outputs.
\<close>

datatype out_item =
    Str string
  | Endl
  | File OutputFile
  | CommandFile OutputFile
  | EscapeString string
  | NinjaName Substitution
  | ToolType ToolName
  | CompilerBuildLine "SourceFile list" "OutputFile list" "OutputFile list" ToolName
      "OutputFile list" bool
  | CCompilerVars
  | SharedVars
  | InputsStamp nat
  | InputDepsStamp nat
  | Pool
  | ConfigStrings ConfigField
  | LinkerFlags "SourceFile option"
  | Libs
  | Frameworks
  | SwiftModules "OutputFile list"
  | LinkerSubstitution Substitution
  | SourceSetStamp "OutputFile list"

text \<open>\<^verbatim>\<open>PathOutput::WriteFiles\<close>: every file after a space.\<close>

definition WriteFiles :: "OutputFile list \<Rightarrow> out_item list" where
  "WriteFiles files = concat (map (\<lambda>f. [Str '' '', File f]) files)"

definition WriteCommandFiles :: "OutputFile list \<Rightarrow> out_item list" where
  "WriteCommandFiles files = concat (map (\<lambda>f. [Str '' '', CommandFile f]) files)"

record Err =
  err_location :: string
  err_message :: string
  err_help :: string

text \<open>
  Modelled from the spec: \<^verbatim>\<open>Scheduler::FailWithError\<close> (scheduler.h declares it, its body
  is not among the sources). The shared error channel marks the build as failed and records
  the error.
\<close>

record Scheduler =
  is_failed :: bool
  errors :: "Err list"

definition FailWithError :: "Err \<Rightarrow> Scheduler \<Rightarrow> Scheduler" where
  "FailWithError err s = s\<lparr>is_failed := True, errors := errors s @ [err]\<rparr>"

text \<open>
  The ways the process stops inside the writer: a failed \<^verbatim>\<open>CHECK\<close>, a call through a
  null tool pointer, \<^verbatim>\<open>tool_outputs[0]\<close> of an empty vector, and the
  \<^verbatim>\<open>std::out_of_range\<close> that \<^verbatim>\<open>substr\<close> and \<^verbatim>\<open>compare\<close> throw and nothing catches.
\<close>

datatype fatal = CHECK_failed string | NullTool ToolName | EmptyOutputs | OutOfRange

record Writer =
  out :: "out_item list"
  g_scheduler :: Scheduler

section \<open>Module dependency records\<close>

record ModuleDep =
  modulemap :: SourceFile
  mod_name :: string
  pcm :: OutputFile
  is_self :: bool

definition GetModuleMapFromTargetSources :: "'a TargetCore_scheme \<Rightarrow> SourceFile option" where
  "GetModuleMapFromTargetSources target = find IsModuleMapType (sources target)"

text \<open>The lambda \<^verbatim>\<open>add\<close> of \<^verbatim>\<open>GetModuleDepsInformation\<close>, with its four CHECKs.\<close>

definition add :: "'a TargetCore_scheme \<Rightarrow> bool \<Rightarrow> ModuleDep list \<Rightarrow> fatal + ModuleDep list" where
  "add t self ret =
     (case GetModuleMapFromTargetSources t of
        None \<Rightarrow> Inl (CHECK_failed ''modulemap'')
      | Some mm \<Rightarrow>
          (case label_no_toolchain t of
             None \<Rightarrow> Inl (CHECK_failed ''GetTargetSubstitution'')
           | Some label \<Rightarrow>
               (case GetOutputFilesForSource t mm of
                  None \<Rightarrow> Inl (CHECK_failed ''GetOutputFilesForSource'')
                | Some (tool_type, modulemap_outputs) \<Rightarrow>
                    (case modulemap_outputs of
                       [p] \<Rightarrow> Inr (ret @ [\<lparr>modulemap = mm, mod_name = label, pcm = p,
                                           is_self = self\<rparr>])
                     | _ \<Rightarrow> Inl (CHECK_failed ''modulemap_outputs.size() == 1u'')))))"

fun add_linked :: "TargetCore list \<Rightarrow> ModuleDep list \<Rightarrow> fatal + ModuleDep list" where
  "add_linked [] ret = Inr ret"
| "add_linked (dep # deps) ret =
     (if Get (source_types_used dep) SOURCE_MODULEMAP
      then (case add dep False ret of Inl e \<Rightarrow> Inl e | Inr ret' \<Rightarrow> add_linked deps ret')
      else add_linked deps ret)"

definition GetModuleDepsInformation :: "Target \<Rightarrow> fatal + ModuleDep list" where
  "GetModuleDepsInformation target =
     (case (if Get (source_types_used target) SOURCE_MODULEMAP then add target True []
            else Inr []) of
        Inl e \<Rightarrow> Inl e
      | Inr ret \<Rightarrow> add_linked (deps_linked target) ret)"

section \<open>The variable block\<close>

fun module_file_args :: "ModuleDep list \<Rightarrow> bool \<Rightarrow> out_item list" where
  "module_file_args [] include_self = []"
| "module_file_args (module_dep # rest) include_self =
     (if \<not> is_self module_dep \<or> include_self
      then [Str '' '', EscapeString ''-fmodule-file='', File (pcm module_dep)]
      else []) @ module_file_args rest include_self"

definition WriteModuleDepsSubstitution ::
  "Target \<Rightarrow> Substitution \<Rightarrow> ModuleDep list \<Rightarrow> bool \<Rightarrow> out_item list" where
  "WriteModuleDepsSubstitution target substitution module_dep_info include_self =
     (if substitution \<in> substitution_bits_used (toolchain target)
      then [NinjaName substitution, Str '' = -Xclang '',
            EscapeString ''-fmodules-embed-all-files'']
           @ module_file_args module_dep_info include_self @ [Endl]
      else [])"

definition WriteCompilerVars :: "Target \<Rightarrow> ModuleDep list \<Rightarrow> out_item list" where
  "WriteCompilerVars target module_dep_info =
     [CCompilerVars]
     @ (if module_dep_info \<noteq> [] \<and>
           (Get (source_types_used target) SOURCE_CPP \<or>
            Get (source_types_used target) SOURCE_MODULEMAP)
        then WriteModuleDepsSubstitution target CSubstitutionModuleDeps module_dep_info True
             @ WriteModuleDepsSubstitution target CSubstitutionModuleDepsNoSelf
                 module_dep_info False
        else [])
     @ [SharedVars]"

section \<open>Precompiled headers\<close>

fun GetPCHLangForToolType :: "ToolName \<Rightarrow> string" where
  "GetPCHLangForToolType kCToolCc = ''c-header''"
| "GetPCHLangForToolType kCToolCxx = ''c++-header''"
| "GetPCHLangForToolType kCToolObjC = ''objective-c-header''"
| "GetPCHLangForToolType kCToolObjCxx = ''objective-c++-header''"
| "GetPCHLangForToolType name = []"

text \<open>
  The two PCH writers return what they append to the stream and the outputs they add to the
  vector they are given; both are empty when the output list is empty and they return early.
\<close>

definition gcc_flags :: "ToolName \<Rightarrow> out_item list" where
  "gcc_flags tool_name =
     (if tool_name = kCToolCc then [ConfigStrings cflags_c]
      else if tool_name = kCToolCxx then [ConfigStrings cflags_cc]
      else if tool_name = kCToolObjC then [ConfigStrings cflags_objc]
      else if tool_name = kCToolObjCxx then [ConfigStrings cflags_objcc]
      else [])"

definition WriteGCCPCHCommand ::
  "Target \<Rightarrow> Substitution \<Rightarrow> ToolName \<Rightarrow> OutputFile list \<Rightarrow> OutputFile list
     \<Rightarrow> out_item list \<times> OutputFile list" where
  "WriteGCCPCHCommand target flag_type tool_name input_deps order_only_deps =
     (let outs = GetPCHOutputFiles target tool_name in
      if outs = [] then ([], [])
      else
        ([CompilerBuildLine [precompiled_source (config_values target)] input_deps
            order_only_deps tool_name outs True,
          Str ''  '', NinjaName flag_type, Str '' ='']
         @ gcc_flags tool_name
         @ [Str ('' -x '' @ GetPCHLangForToolType tool_name), Endl, Endl],
         outs))"

definition WriteWindowsPCHCommand ::
  "Target \<Rightarrow> Substitution \<Rightarrow> ToolName \<Rightarrow> OutputFile list \<Rightarrow> OutputFile list
     \<Rightarrow> out_item list \<times> OutputFile list" where
  "WriteWindowsPCHCommand target flag_type tool_name input_deps order_only_deps =
     (let outs = GetPCHOutputFiles target tool_name in
      if outs = [] then ([], [])
      else
        ([CompilerBuildLine [precompiled_source (config_values target)] input_deps
            order_only_deps tool_name outs True,
          Str ''  '', NinjaName flag_type, Str '' ='',
          Str '' ${'', NinjaName flag_type, Str ''}'',
          Str ('' /Yc'' @ precompiled_header (config_values target)), Endl, Endl],
         outs))"

text \<open>
  \<^verbatim>\<open>WritePCHCommand\<close> and \<^verbatim>\<open>WritePCHCommands\<close> return the stream items, the additions
  to \<open>object_files\<close> and the additions to \<open>other_files\<close>.
\<close>

type_synonym pch_result = "out_item list \<times> OutputFile list \<times> OutputFile list"

definition WritePCHCommand ::
  "Target \<Rightarrow> Substitution \<Rightarrow> ToolName \<Rightarrow> PrecompiledHeaderType \<Rightarrow> OutputFile list
     \<Rightarrow> OutputFile list \<Rightarrow> pch_result" where
  "WritePCHCommand target flag_type tool_name header_type input_deps order_only_deps =
     (case header_type of
        PCH_MSVC \<Rightarrow>
          (case WriteWindowsPCHCommand target flag_type tool_name input_deps order_only_deps of
             (items, objs) \<Rightarrow> (items, objs, []))
      | PCH_GCC \<Rightarrow>
          (case WriteGCCPCHCommand target flag_type tool_name input_deps order_only_deps of
             (items, gchs) \<Rightarrow> (items, [], gchs))
      | PCH_NONE \<Rightarrow> ([], [], []))"

text \<open>Running one step after another: the stream and both vectors grow at the end.\<close>

definition and_then :: "pch_result \<Rightarrow> pch_result \<Rightarrow> pch_result" where
  "and_then x y = (fst x @ fst y, fst (snd x) @ fst (snd y), snd (snd x) @ snd (snd y))"

definition WritePCHCommands ::
  "Target \<Rightarrow> OutputFile list \<Rightarrow> OutputFile list \<Rightarrow> pch_result" where
  "WritePCHCommands target input_deps order_only_deps =
     (if \<not> has_precompiled_headers (config_values target) then ([], [], [])
      else
        and_then
          (case GetToolAsC (toolchain target) kCToolCc of
             None \<Rightarrow> ([], [], [])
           | Some header_type \<Rightarrow>
               if header_type \<noteq> PCH_NONE \<and> Get (source_types_used target) SOURCE_C
               then WritePCHCommand target CSubstitutionCFlagsC kCToolCc header_type
                      input_deps order_only_deps
               else ([], [], []))
       (and_then
          (case GetToolAsC (toolchain target) kCToolCxx of
             None \<Rightarrow> ([], [], [])
           | Some header_type \<Rightarrow>
               if header_type \<noteq> PCH_NONE \<and> Get (source_types_used target) SOURCE_CPP
               then WritePCHCommand target CSubstitutionCFlagsCc kCToolCxx header_type
                      input_deps order_only_deps
               else ([], [], []))
       (and_then
          (case GetToolAsC (toolchain target) kCToolObjC of
             None \<Rightarrow> ([], [], [])
           | Some header_type \<Rightarrow>
               if header_type = PCH_GCC \<and> Get (source_types_used target) SOURCE_M
               then WritePCHCommand target CSubstitutionCFlagsObjC kCToolObjC header_type
                      input_deps order_only_deps
               else ([], [], []))
          (case GetToolAsC (toolchain target) kCToolObjCxx of
             None \<Rightarrow> ([], [], [])
           | Some header_type \<Rightarrow>
               if header_type = PCH_GCC \<and> Get (source_types_used target) SOURCE_MM
               then WritePCHCommand target CSubstitutionCFlagsObjCc kCToolObjCxx header_type
                      input_deps order_only_deps
               else ([], [], [])))))"

section \<open>The C-family source writer\<close>

text \<open>
  The extension test on one PCH dependency (the body of the loop over \<open>pch_deps\<close>): whether
  the dependency is pushed. \<open>FindExtensionOffset\<close> is \<open>None\<close> for \<^verbatim>\<open>std::string::npos\<close>.
  \<^verbatim>\<open>substr(extension_offset - 1)\<close> throws when the unsigned position is past the end, and
  \<^verbatim>\<open>compare(size() - output_extension.size(), ...)\<close> does when the extension is longer than
  the path, the unsigned difference being past the end.
\<close>

definition pch_dep_applies ::
  "Target \<Rightarrow> ToolName \<Rightarrow> PrecompiledHeaderType \<Rightarrow> OutputFile \<Rightarrow> fatal + bool" where
  "pch_dep_applies target tool_name pch output_value =
     (case FindExtensionOffset target output_value of
        None \<Rightarrow> Inr False
      | Some extension_offset \<Rightarrow>
          if pch = PCH_MSVC \<and>
             (extension_offset = 0 \<or> length output_value < extension_offset - 1)
          then Inl OutOfRange
          else
            let output_extension =
                  (if pch = PCH_MSVC
                   then GetWindowsPCHObjectExtension target tool_name
                          (drop (extension_offset - 1) output_value)
                   else if pch = PCH_GCC then GetGCCPCHOutputExtension target tool_name
                   else [])
            in if length output_value < length output_extension then Inl OutOfRange
               else Inr (drop (length output_value - length output_extension) output_value
                           = output_extension))"

fun pch_deps_loop ::
  "Target \<Rightarrow> ToolName \<Rightarrow> PrecompiledHeaderType \<Rightarrow> OutputFile list \<Rightarrow> OutputFile list
     \<Rightarrow> fatal + OutputFile list" where
  "pch_deps_loop target tool_name pch [] deps = Inr deps"
| "pch_deps_loop target tool_name pch (dep # rest) deps =
     (case pch_dep_applies target tool_name pch dep of
        Inl e \<Rightarrow> Inl e
      | Inr applies \<Rightarrow>
          pch_deps_loop target tool_name pch rest (if applies then deps @ [dep] else deps))"

text \<open>The loop over \<open>module_dep_info\<close>; it reads \<^verbatim>\<open>tool_outputs[0]\<close> in every round.\<close>

fun module_deps_loop ::
  "OutputFile list \<Rightarrow> ModuleDep list \<Rightarrow> OutputFile list \<Rightarrow> fatal + OutputFile list" where
  "module_deps_loop tool_outputs [] deps = Inr deps"
| "module_deps_loop tool_outputs (module_dep # rest) deps =
     (case tool_outputs of
        [] \<Rightarrow> Inl EmptyOutputs
      | first # others \<Rightarrow>
          module_deps_loop tool_outputs rest
            (if first \<noteq> pcm module_dep then deps @ [pcm module_dep] else deps))"

text \<open>
  The block under \<^verbatim>\<open>if (tool_name != Tool::kToolNone)\<close>: the implicit dependencies of one
  source and its build edge, followed by the pool line.
\<close>

definition source_deps ::
  "Target \<Rightarrow> OutputFile list \<Rightarrow> OutputFile list \<Rightarrow> ModuleDep list \<Rightarrow> ToolName
     \<Rightarrow> OutputFile list \<Rightarrow> fatal + OutputFile list" where
  "source_deps target pch_deps input_deps module_dep_info tool_name tool_outputs =
     (case GetToolAsC (toolchain target) tool_name of
        None \<Rightarrow> Inl (NullTool tool_name)
      | Some pch \<Rightarrow>
          (case (if pch \<noteq> PCH_NONE
                 then pch_deps_loop target tool_name pch pch_deps input_deps
                 else Inr input_deps) of
             Inl e \<Rightarrow> Inl e
           | Inr deps \<Rightarrow> module_deps_loop tool_outputs module_dep_info deps))"

definition write_source ::
  "Target \<Rightarrow> OutputFile list \<Rightarrow> OutputFile list \<Rightarrow> OutputFile list \<Rightarrow> ModuleDep list
     \<Rightarrow> SourceFile \<Rightarrow> ToolName \<Rightarrow> OutputFile list \<Rightarrow> fatal + out_item list" where
  "write_source target pch_deps input_deps order_only_deps module_dep_info source tool_name
       tool_outputs =
     (if tool_name \<noteq> kToolNone
      then (case source_deps target pch_deps input_deps module_dep_info tool_name
                   tool_outputs of
              Inl e \<Rightarrow> Inl e
            | Inr deps \<Rightarrow>
                Inr [CompilerBuildLine [source] deps order_only_deps tool_name tool_outputs
                       True,
                     Pool])
      else Inr [])"

text \<open>
  The loop over the sources of the target, on the stream items written so far and the two
  vectors \<open>object_files\<close> and \<open>other_files\<close>.
\<close>

fun WriteSources_loop ::
  "Target \<Rightarrow> OutputFile list \<Rightarrow> OutputFile list \<Rightarrow> OutputFile list \<Rightarrow> ModuleDep list
     \<Rightarrow> SourceFile list \<Rightarrow> out_item list \<times> OutputFile list \<times> SourceFile list
     \<Rightarrow> fatal + out_item list \<times> OutputFile list \<times> SourceFile list" where
  "WriteSources_loop target pch_deps input_deps order_only_deps module_dep_info [] acc =
     Inr acc"
| "WriteSources_loop target pch_deps input_deps order_only_deps module_dep_info
       (source # rest) (items, object_files, other_files) =
     (case GetOutputFilesForSource target source of
        None \<Rightarrow>
          WriteSources_loop target pch_deps input_deps order_only_deps module_dep_info rest
            (items, object_files,
             if IsDefType source then other_files @ [source] else other_files)
      | Some (tool_name, tool_outputs) \<Rightarrow>
          (case write_source target pch_deps input_deps order_only_deps module_dep_info
                  source tool_name tool_outputs of
             Inl e \<Rightarrow> Inl e
           | Inr edge \<Rightarrow>
               if \<not> IsModuleMapType source
               then (case tool_outputs of
                       [] \<Rightarrow> Inl EmptyOutputs
                     | first # others \<Rightarrow>
                         WriteSources_loop target pch_deps input_deps order_only_deps
                           module_dep_info rest
                           (items @ edge, object_files @ [first], other_files))
               else WriteSources_loop target pch_deps input_deps order_only_deps
                      module_dep_info rest (items @ edge, object_files, other_files)))"

definition WriteSources ::
  "Target \<Rightarrow> OutputFile list \<Rightarrow> OutputFile list \<Rightarrow> OutputFile list \<Rightarrow> ModuleDep list
     \<Rightarrow> fatal + out_item list \<times> OutputFile list \<times> SourceFile list" where
  "WriteSources target pch_deps input_deps order_only_deps module_dep_info =
     (case WriteSources_loop target pch_deps input_deps order_only_deps module_dep_info
             (sources target) ([], [], []) of
        Inl e \<Rightarrow> Inl e
      | Inr (items, object_files, other_files) \<Rightarrow>
          Inr (items @ [Endl], object_files, other_files))"

section \<open>The Swift source writer\<close>

text \<open>\<^verbatim>\<open>UniqueVector\<close>: \<^verbatim>\<open>push_back\<close> keeps the first occurrence of an element.\<close>

definition push_back_unique :: "'a list \<Rightarrow> 'a \<Rightarrow> 'a list" where
  "push_back_unique v x = (if x \<in> set v then v else v @ [x])"

definition Append_unique :: "'a list \<Rightarrow> 'a list \<Rightarrow> 'a list" where
  "Append_unique v xs = fold (\<lambda>x acc. push_back_unique acc x) xs v"

definition object_outputs :: "Target \<Rightarrow> OutputFile list \<Rightarrow> OutputFile list" where
  "object_outputs target outs =
     filter (\<lambda>output. IsObjectType (AsSourceFile target output)) outs"

text \<open>
  The vectors of \<^verbatim>\<open>WriteSwiftSources\<close>: the outputs of the Swift tool for the target
  without the \<^verbatim>\<open>.swiftmodule\<close> itself, the partial outputs of the Swift sources, and the
  order-only dependencies of the Swift edges.
\<close>

definition swift_tool_outputs :: "Target \<Rightarrow> Tool \<Rightarrow> OutputFile list" where
  "swift_tool_outputs target tool =
     removeAll (module_output_file target)
       (ApplyListToLinkerAsOutputFile target kCToolSwift (outputs tool))"

definition swift_partial_outputs :: "Target \<Rightarrow> Tool \<Rightarrow> OutputFile list" where
  "swift_partial_outputs target tool =
     (if partial_outputs tool \<noteq> []
      then concat (map (\<lambda>source. ApplyListToCompilerAsOutputFile target source
                                    (partial_outputs tool))
                     (filter IsSwiftType (sources target)))
      else [])"

definition swift_order_only_deps :: "Target \<Rightarrow> OutputFile list \<Rightarrow> OutputFile list" where
  "swift_order_only_deps target order_only_deps =
     Append_unique (Append_unique [] order_only_deps)
       (map dependency_output_file (swift_modules target))"

text \<open>
  The Swift tool is the one registered for \<^verbatim>\<open>SOURCE_SWIFT\<close>; the call through a null
  pointer when the toolchain has none is a fatal stop. The function returns the stream
  items and the additions to \<open>object_files\<close>.
\<close>

definition WriteSwiftSources ::
  "Target \<Rightarrow> OutputFile list \<Rightarrow> OutputFile list \<Rightarrow> fatal + out_item list \<times> OutputFile list"
  where
  "WriteSwiftSources target input_deps order_only_deps =
     (if SwiftSourceUsed (source_types_used target)
      then
        (case tools (toolchain target) kCToolSwift of
           None \<Rightarrow> Inl (NullTool kCToolSwift)
         | Some tool \<Rightarrow>
             let swiftmodule_output_file = module_output_file target;
                 additional_outputs =
                   swift_tool_outputs target tool @ swift_partial_outputs target tool;
                 object_files =
                   object_outputs target (swift_tool_outputs target tool)
                   @ object_outputs target (swift_partial_outputs target tool)
             in Inr ([CompilerBuildLine (sources target) input_deps
                        (swift_order_only_deps target order_only_deps)
                        kCToolSwift [swiftmodule_output_file] False]
                     @ (if additional_outputs \<noteq> []
                        then [Endl,
                              CompilerBuildLine [AsSourceFile target swiftmodule_output_file]
                                input_deps (swift_order_only_deps target order_only_deps)
                                kGeneralToolStamp additional_outputs False]
                        else [])
                     @ [Endl],
                     object_files))
      else Inr ([Endl], []))"

section \<open>The linker writer\<close>

text \<open>
  The loop over the linkable dependencies, on the items written to the build line and the
  two vectors \<open>implicit_deps\<close> and \<open>solibs\<close>.
\<close>

fun linkable_deps_loop ::
  "TargetCore list \<Rightarrow> out_item list \<times> OutputFile list \<times> OutputFile list
     \<Rightarrow> out_item list \<times> OutputFile list \<times> OutputFile list" where
  "linkable_deps_loop [] acc = acc"
| "linkable_deps_loop (cur # rest) (items, implicit_deps, solibs) =
     (if output_type cur = RUST_LIBRARY \<or> output_type cur = RUST_PROC_MACRO
      then linkable_deps_loop rest (items, implicit_deps, solibs)
      else if dependency_output_file cur \<noteq> link_output_file cur
      then linkable_deps_loop rest
             (items, implicit_deps @ [dependency_output_file cur],
              solibs @ [link_output_file cur])
      else linkable_deps_loop rest
             (items @ [Str '' '', File (link_output_file cur)], implicit_deps, solibs))"

fun lib_source_files :: "Target \<Rightarrow> LibFile list \<Rightarrow> OutputFile list" where
  "lib_source_files target [] = []"
| "lib_source_files target (LibName n # libs) = lib_source_files target libs"
| "lib_source_files target (LibSourceFile f # libs) =
     AsOutputFile target f # lib_source_files target libs"

definition WriteOrderOnlyDependencies :: "TargetCore list \<Rightarrow> out_item list" where
  "WriteOrderOnlyDependencies deps =
     (if deps \<noteq> []
      then Str '' ||'' # concat (map (\<lambda>d. [Str '' '', File (dependency_output_file d)]) deps)
      else [])"

definition WriteOutputSubstitutions :: "out_item list" where
  "WriteOutputSubstitutions =
     [Str ''  output_extension = '', LinkerSubstitution SubstitutionOutputExtension, Endl,
      Str ''  output_dir = '', LinkerSubstitution SubstitutionOutputDir, Endl]"

definition WriteLibsList :: "string \<Rightarrow> OutputFile list \<Rightarrow> out_item list" where
  "WriteLibsList label libs =
     (if libs = [] then []
      else [Str (''  '' @ label @ '' ='')] @ WriteCommandFiles libs @ [Endl])"

text \<open>
  The vector \<open>implicit_deps\<close> of the link edge after the loop over the linkable dependencies
  has filled \<open>from_linkable\<close>, and the two vectors built beside it.
\<close>

definition transitive_rustlibs :: "Target \<Rightarrow> OutputFile list" where
  "transitive_rustlibs target =
     (if IsFinal target
      then map dependency_output_file
             (filter (\<lambda>dep. output_type dep = RUST_LIBRARY) (inherited_libraries target))
      else [])"

definition swiftmodules :: "Target \<Rightarrow> OutputFile list" where
  "swiftmodules target =
     (if IsFinal target
      then map module_output_file (swiftmodule_deps (classified_deps target))
           @ (if builds_swift_module target then [module_output_file target] else [])
      else [])"

definition link_implicit_deps ::
  "Target \<Rightarrow> OutputFile list \<Rightarrow> SourceFile list \<Rightarrow> OutputFile list \<Rightarrow> OutputFile list" where
  "link_implicit_deps target from_linkable other_files input_deps =
     from_linkable
     @ (case find IsDefType other_files of
          None \<Rightarrow> []
        | Some src_file \<Rightarrow> [AsOutputFile target src_file])
     @ lib_source_files target (all_libs target)
     @ map dependency_output_file (framework_deps (classified_deps target))
     @ input_deps
     @ transitive_rustlibs target
     @ swiftmodules target"

definition link_tail :: "Target \<Rightarrow> SourceFile option \<Rightarrow> out_item list" where
  "link_tail target optional_def_file =
     (if output_type target = EXECUTABLE \<or> output_type target = SHARED_LIBRARY \<or>
         output_type target = LOADABLE_MODULE
      then [Str ''  ldflags ='', LinkerFlags optional_def_file, Endl,
            Str ''  libs ='', Libs, Endl,
            Str ''  frameworks ='', Frameworks, Endl,
            Str ''  swiftmodules ='', SwiftModules (swiftmodules target), Endl]
      else if output_type target = STATIC_LIBRARY
      then [Str ''  arflags ='', ConfigStrings arflags, Endl]
      else [])"

definition WriteLinkerStuff ::
  "Target \<Rightarrow> OutputFile list \<Rightarrow> SourceFile list \<Rightarrow> OutputFile list \<Rightarrow> out_item list" where
  "WriteLinkerStuff target object_files other_files input_deps =
     (case linkable_deps_loop (linkable_deps (classified_deps target)) ([], [], []) of
        (direct, from_linkable, solibs) \<Rightarrow>
          let output_files =
                ApplyListToLinkerAsOutputFile target (tool_type_for_target_final_output target)
                  (final_tool_outputs target);
              implicit_deps = link_implicit_deps target from_linkable other_files input_deps
          in [Str ''build''] @ WriteFiles output_files
             @ [Str ('': '' @ rule_prefix target),
                ToolType (tool_type_for_target_final_output target)]
             @ WriteFiles object_files
             @ WriteFiles (extra_object_files (classified_deps target))
             @ direct
             @ (if implicit_deps \<noteq> [] then Str '' |'' # WriteFiles implicit_deps else [])
             @ WriteOrderOnlyDependencies (non_linkable_deps (classified_deps target))
             @ [Endl]
             @ link_tail target (find IsDefType other_files)
             @ WriteOutputSubstitutions
             @ WriteLibsList ''solibs'' solibs
             @ WriteLibsList ''rlibs'' (transitive_rustlibs target)
             @ [Pool])"

section \<open>The duplicate-object check and the orchestrator\<close>

text \<open>
  The loop of \<^verbatim>\<open>CheckForDuplicateObjectFiles\<close> over the \<^verbatim>\<open>std::set\<close> of the paths seen:
  the first file whose insertion fails, if any.
\<close>

fun first_duplicate :: "string set \<Rightarrow> OutputFile list \<Rightarrow> OutputFile option" where
  "first_duplicate seen [] = None"
| "first_duplicate seen (file # files) =
     (if file \<in> seen then Some file else first_duplicate (insert file seen) files)"

definition duplicate_object_help :: "string \<Rightarrow> OutputFile \<Rightarrow> string" where
  "duplicate_object_help label file =
     ''The target '' @ label @ [CHR 0x0A]
     @ ''generates two object files with the same name:'' @ [CHR 0x0A]
     @ ''  '' @ file @ [CHR 0x0A, CHR 0x0A]
     @ ''It could be you accidentally have a file listed twice in the'' @ [CHR 0x0A]
     @ ''sources. Or, depending on how your toolchain maps sources to'' @ [CHR 0x0A]
     @ ''object files, two source files with the same name in different'' @ [CHR 0x0A]
     @ ''directories could map to the same object file.'' @ [CHR 0x0A, CHR 0x0A]
     @ ''In the latter case, either rename one of the files or move one of'' @ [CHR 0x0A]
     @ ''the sources to a separate source_set to avoid them both being in'' @ [CHR 0x0A]
     @ ''the same target.''"

definition duplicate_object_error :: "Target \<Rightarrow> OutputFile \<Rightarrow> Err" where
  "duplicate_object_error target file =
     \<lparr>err_location = defined_from target, err_message = ''Duplicate object file'',
      err_help = duplicate_object_help (label_user_visible_name target) file\<rparr>"

definition CheckForDuplicateObjectFiles ::
  "Target \<Rightarrow> OutputFile list \<Rightarrow> Scheduler \<Rightarrow> bool \<times> Scheduler" where
  "CheckForDuplicateObjectFiles target files sched =
     (case first_duplicate {} files of
        Some file \<Rightarrow> (False, FailWithError (duplicate_object_error target file) sched)
      | None \<Rightarrow> (True, sched))"

text \<open>
  \<^verbatim>\<open>Run\<close> up to the insertion of the PCH objects into \<open>obj_files\<close>: the items written to
  the stream, the final \<open>obj_files\<close>, \<open>other_files\<close> and \<open>input_deps\<close>. The two stamp helpers
  of the base writer are recorded on the stream with their argument; the vectors they return
  are fields of the target.
\<close>

definition Run_to_object_files ::
  "Target \<Rightarrow> fatal + out_item list \<times> OutputFile list \<times> SourceFile list \<times> OutputFile list"
  where
  "Run_to_object_files target =
     (case GetModuleDepsInformation target of
        Inl e \<Rightarrow> Inl e
      | Inr module_dep_info \<Rightarrow>
          let num_stamp_uses = length (sources target);
              input_deps = inputs_stamp_dep target num_stamp_uses;
              order_only_deps = input_deps_stamp_dep target num_stamp_uses
          in (case WritePCHCommands target input_deps order_only_deps of
                (pch_items, pch_obj_files, pch_other_files) \<Rightarrow>
                  let pch_files = (if pch_obj_files \<noteq> [] then pch_obj_files
                                   else pch_other_files)
                  in (case (if \<not> SwiftSourceUsed (source_types_used target)
                            then WriteSources target pch_files input_deps order_only_deps
                                   module_dep_info
                            else (case WriteSwiftSources target input_deps order_only_deps of
                                    Inl e \<Rightarrow> Inl e
                                  | Inr (items, objs) \<Rightarrow> Inr (items, objs, []))) of
                        Inl e \<Rightarrow> Inl e
                      | Inr (source_items, obj_files, other_files) \<Rightarrow>
                          Inr (WriteCompilerVars target module_dep_info
                               @ [InputsStamp num_stamp_uses, InputDepsStamp num_stamp_uses]
                               @ pch_items @ source_items,
                               obj_files @ pch_obj_files, other_files, input_deps))))"

text \<open>
  \<^verbatim>\<open>Run\<close>: a fatal stop, or the writer with the stream extended and the scheduler as the
  duplicate check leaves it.
\<close>

definition Run :: "Target \<Rightarrow> Writer \<Rightarrow> fatal + Writer" where
  "Run target w =
     (case Run_to_object_files target of
        Inl e \<Rightarrow> Inl e
      | Inr (items, obj_files, other_files, input_deps) \<Rightarrow>
          (case CheckForDuplicateObjectFiles target obj_files (g_scheduler w) of
             (ok, sched) \<Rightarrow>
               if \<not> ok then Inr \<lparr>out = out w @ items, g_scheduler = sched\<rparr>
               else if output_type target = SOURCE_SET
               then Inr \<lparr>out = out w @ items @ [SourceSetStamp obj_files],
                         g_scheduler = sched\<rparr>
               else Inr \<lparr>out = out w @ items
                           @ WriteLinkerStuff target obj_files other_files input_deps,
                         g_scheduler = sched\<rparr>))"

section \<open>Reading the emitted stream\<close>

text \<open>
  A build edge on the stream: a compiler build line, the stamp edge of a source set, or the
  \<^verbatim>\<open>build\<close> keyword that opens the link edge.
\<close>

fun is_build_edge :: "out_item \<Rightarrow> bool" where
  "is_build_edge (CompilerBuildLine srcs deps order_only rule outs info) = True"
| "is_build_edge (SourceSetStamp objs) = True"
| "is_build_edge (Str s) = (s = ''build'')"
| "is_build_edge item = False"

text \<open>
  The object files the loop of \<^verbatim>\<open>WriteSources\<close> collects: the first output of every
  source that reports outputs and is not a module map.
\<close>

fun source_objects :: "Target \<Rightarrow> SourceFile list \<Rightarrow> OutputFile list" where
  "source_objects target [] = []"
| "source_objects target (source # rest) =
     (case GetOutputFilesForSource target source of
        None \<Rightarrow> []
      | Some (tool_name, tool_outputs) \<Rightarrow>
          if IsModuleMapType source then [] else take 1 tool_outputs)
     @ source_objects target rest"

section \<open>Example targets\<close>

definition no_tools :: Toolchain where
  "no_tools = \<lparr>tools = (\<lambda>name. None), substitution_bits_used = {}\<rparr>"

definition c_tool :: "PrecompiledHeaderType \<Rightarrow> Tool" where
  "c_tool pch = \<lparr>category = C_Tool pch, outputs = [], partial_outputs = []\<rparr>"

definition src :: "string \<Rightarrow> SourceFileType \<Rightarrow> SourceFile" where
  "src path ty = \<lparr>sf_value = path, sf_type = ty\<rparr>"

text \<open>
  An executable \<^verbatim>\<open>//foo:bar\<close> with no sources, no dependencies and an empty toolchain;
  the examples below change the fields they need.
\<close>

definition base_target :: Target where
  "base_target =
     \<lparr>output_type = EXECUTABLE, sources = [], source_types_used = {},
      GetOutputFilesForSource = (\<lambda>source. None),
      label_no_toolchain = Some ''//foo:bar'',
      link_output_file = ''bar'', dependency_output_file = ''bar'',
      module_output_file = ''obj/foo/bar.swiftmodule'',
      label_user_visible_name = ''//foo:bar'', defined_from = ''//foo/BUILD.gn'',
      toolchain = no_tools,
      config_values = \<lparr>has_precompiled_headers = False, precompiled_header = [],
                        precompiled_source = src [] SOURCE_UNKNOWN\<rparr>,
      deps_linked = [], swift_modules = [], all_libs = [], IsFinal = True,
      inherited_libraries = [], builds_swift_module = False, rule_prefix = [],
      tool_type_for_target_final_output = kOtherTool ''link'', final_tool_outputs = [],
      classified_deps = \<lparr>extra_object_files = [], linkable_deps = [],
                          non_linkable_deps = [], framework_deps = [],
                          swiftmodule_deps = []\<rparr>,
      inputs_stamp_dep = (\<lambda>n. []), input_deps_stamp_dep = (\<lambda>n. []),
      GetPCHOutputFiles = (\<lambda>name. []),
      ApplyListToLinkerAsOutputFile = (\<lambda>name patterns. patterns),
      ApplyListToCompilerAsOutputFile = (\<lambda>source patterns. []),
      AsSourceFile = (\<lambda>file. src file SOURCE_UNKNOWN),
      AsOutputFile = sf_value,
      FindExtensionOffset = (\<lambda>path. None),
      GetWindowsPCHObjectExtension = (\<lambda>name ext. ext),
      GetGCCPCHOutputExtension = (\<lambda>name. [])\<rparr>"

definition cxx_only :: Toolchain where
  "cxx_only =
     \<lparr>tools = (\<lambda>name. if name = kCToolCxx then Some (c_tool PCH_NONE) else None),
      substitution_bits_used = {}\<rparr>"

text \<open>
  Scenario 6 of the specification: \<^verbatim>\<open>a/x.cc\<close> and \<^verbatim>\<open>b/x.cc\<close> under a toolchain that
  strips the directory, so that both compile to \<^verbatim>\<open>obj/x.o\<close>.
\<close>

definition dup_target :: Target where
  "dup_target =
     base_target
       \<lparr>sources := [src ''a/x.cc'' SOURCE_CPP, src ''b/x.cc'' SOURCE_CPP],
        source_types_used := {SOURCE_CPP},
        GetOutputFilesForSource := (\<lambda>source. Some (kCToolCxx, [''obj/x.o''])),
        toolchain := cxx_only\<rparr>"

text \<open>Scenario 1 without the archive: two sources with different object files.\<close>

definition two_sources :: Target where
  "two_sources =
     base_target
       \<lparr>sources := [src ''a.cc'' SOURCE_CPP, src ''b.cc'' SOURCE_CPP],
        source_types_used := {SOURCE_CPP},
        GetOutputFilesForSource :=
          (\<lambda>source. Some (kCToolCxx, [''obj/'' @ sf_value source @ ''.o''])),
        toolchain := cxx_only\<rparr>"

definition fresh_writer :: Writer where
  "fresh_writer = \<lparr>out = [], g_scheduler = \<lparr>is_failed = False, errors = []\<rparr>\<rparr>"

text \<open>
  Scenario 4 of the specification: a module map and a C++ source, under a toolchain whose
  tools use both module-file substitutions, and the same target under a toolchain that uses
  neither.
\<close>

definition clang_modules :: "Substitution set \<Rightarrow> Toolchain" where
  "clang_modules used =
     \<lparr>tools = (\<lambda>name. if name = kCToolCxx \<or> name = kCToolCxxModule
                       then Some (c_tool PCH_NONE) else None),
      substitution_bits_used = used\<rparr>"

definition modules_target :: Target where
  "modules_target =
     base_target
       \<lparr>sources := [src ''a.modulemap'' SOURCE_MODULEMAP, src ''a.cc'' SOURCE_CPP],
        source_types_used := {SOURCE_MODULEMAP, SOURCE_CPP},
        GetOutputFilesForSource :=
          (\<lambda>source. if sf_type source = SOURCE_MODULEMAP
                    then Some (kCToolCxxModule, [''obj/foo/a.pcm''])
                    else Some (kCToolCxx, [''obj/foo/a.o''])),
        toolchain := clang_modules {CSubstitutionModuleDeps, CSubstitutionModuleDepsNoSelf}\<rparr>"

definition modules_unused :: Target where
  "modules_unused = modules_target\<lparr>toolchain := clang_modules {}\<rparr>"


definition a_pcm :: ModuleDep where
  "a_pcm = \<lparr>modulemap = src ''a.modulemap'' SOURCE_MODULEMAP, mod_name = ''//foo:bar'',
            pcm = ''obj/foo/a.pcm'', is_self = True\<rparr>"

text \<open>
  A target whose module map yields no output, and a target that links a dependency whose
  module map yields two.
\<close>

definition modulemap_no_output :: Target where
  "modulemap_no_output =
     base_target
       \<lparr>sources := [src ''a.modulemap'' SOURCE_MODULEMAP],
        source_types_used := {SOURCE_MODULEMAP},
        GetOutputFilesForSource := (\<lambda>source. Some (kCToolCxxModule, [])),
        toolchain := clang_modules {}\<rparr>"

definition two_pcm_dep :: TargetCore where
  "two_pcm_dep =
     \<lparr>output_type = STATIC_LIBRARY,
      sources = [src ''b.modulemap'' SOURCE_MODULEMAP],
      source_types_used = {SOURCE_MODULEMAP},
      GetOutputFilesForSource =
        (\<lambda>source. Some (kCToolCxxModule, [''obj/dep/b.pcm'', ''obj/dep/b2.pcm''])),
      label_no_toolchain = Some ''//dep:b'',
      link_output_file = ''obj/dep/libb.a'', dependency_output_file = ''obj/dep/libb.a'',
      module_output_file = []\<rparr>"

definition links_two_pcm_dep :: Target where
  "links_two_pcm_dep = two_sources\<lparr>deps_linked := [two_pcm_dep]\<rparr>"

section \<open>The precompiled-header edges\<close>

text \<open>
  The build edge of a PCH command, and when \<^verbatim>\<open>WritePCHCommands\<close> writes it for one of
  the four language tools: the target has precompiled headers, the tool is a C tool of an
  accepted dialect (any but none for C and C++, GCC for ObjC and ObjC++), the target uses
  sources of the language, and the tool has PCH outputs for the target.
\<close>

definition pch_edge :: "Target \<Rightarrow> ToolName \<Rightarrow> OutputFile list \<Rightarrow> OutputFile list \<Rightarrow> out_item"
  where
  "pch_edge target tool_name input_deps order_only_deps =
     CompilerBuildLine [precompiled_source (config_values target)] input_deps order_only_deps
       tool_name (GetPCHOutputFiles target tool_name) True"

definition pch_dialect_accepted :: "ToolName \<Rightarrow> PrecompiledHeaderType \<Rightarrow> bool" where
  "pch_dialect_accepted tool_name dialect =
     (if tool_name = kCToolCc \<or> tool_name = kCToolCxx then dialect \<noteq> PCH_NONE
      else if tool_name = kCToolObjC \<or> tool_name = kCToolObjCxx then dialect = PCH_GCC
      else False)"

fun pch_source_type :: "ToolName \<Rightarrow> SourceFileType" where
  "pch_source_type kCToolCc = SOURCE_C"
| "pch_source_type kCToolCxx = SOURCE_CPP"
| "pch_source_type kCToolObjC = SOURCE_M"
| "pch_source_type kCToolObjCxx = SOURCE_MM"
| "pch_source_type name = SOURCE_UNKNOWN"

definition writes_pch :: "Target \<Rightarrow> ToolName \<Rightarrow> bool" where
  "writes_pch target tool_name =
     (has_precompiled_headers (config_values target) \<and>
      (case GetToolAsC (toolchain target) tool_name of
         None \<Rightarrow> False
       | Some dialect \<Rightarrow> pch_dialect_accepted tool_name dialect) \<and>
      Get (source_types_used target) (pch_source_type tool_name) \<and>
      GetPCHOutputFiles target tool_name \<noteq> [])"

text \<open>
  Scenario 3 of the specification: a C++ source with a precompiled header under a GCC
  toolchain. The same target under a toolchain of the MSVC dialect, and an Objective-C
  target under a toolchain whose \<^verbatim>\<open>objc\<close> tool declares the MSVC dialect.
\<close>

definition pch_toolchain :: "PrecompiledHeaderType \<Rightarrow> Toolchain" where
  "pch_toolchain dialect =
     \<lparr>tools = (\<lambda>name. if name = kCToolCxx \<or> name = kCToolObjC
                       then Some (c_tool dialect) else None),
      substitution_bits_used = {}\<rparr>"

definition gcc_pch_target :: Target where
  "gcc_pch_target =
     base_target
       \<lparr>sources := [src ''a.cc'' SOURCE_CPP],
        source_types_used := {SOURCE_CPP},
        GetOutputFilesForSource := (\<lambda>source. Some (kCToolCxx, [''obj/foo/bar.a.o''])),
        toolchain := pch_toolchain PCH_GCC,
        config_values := \<lparr>has_precompiled_headers = True,
                          precompiled_header = ''build/precompile.h'',
                          precompiled_source = src ''//build/precompile.h'' SOURCE_H\<rparr>,
        GetPCHOutputFiles := (\<lambda>name. [''obj/build/bar.precompile.h-cc.gch'']),
        FindExtensionOffset := (\<lambda>path. Some (length path - 3)),
        GetGCCPCHOutputExtension := (\<lambda>name. ''.h-cc.gch'')\<rparr>"

definition msvc_pch_target :: Target where
  "msvc_pch_target =
     gcc_pch_target
       \<lparr>toolchain := pch_toolchain PCH_MSVC,
        config_values := \<lparr>has_precompiled_headers = True,
                          precompiled_header = ''build/precompile.h'',
                          precompiled_source = src ''//build/precompile.cc'' SOURCE_CPP\<rparr>,
        GetPCHOutputFiles := (\<lambda>name. [''obj/build/bar.precompile.cc.obj'']),
        GetWindowsPCHObjectExtension := (\<lambda>name ext. ''.cc'' @ ext)\<rparr>"

definition objc_msvc_target :: Target where
  "objc_msvc_target =
     msvc_pch_target
       \<lparr>sources := [src ''a.m'' SOURCE_M],
        source_types_used := {SOURCE_M},
        GetOutputFilesForSource := (\<lambda>source. Some (kCToolObjC, [''obj/foo/bar.a.obj'']))\<rparr>"



text \<open>
  The outputs of the PCH edges by dialect, and the object files that the source writer
  (C-family or Swift) hands back to \<^verbatim>\<open>Run\<close>.
\<close>

definition pch_outputs :: "Target \<Rightarrow> PrecompiledHeaderType \<Rightarrow> OutputFile list" where
  "pch_outputs target dialect =
     concat (map (\<lambda>name. if writes_pch target name \<and>
                             GetToolAsC (toolchain target) name = Some dialect
                          then GetPCHOutputFiles target name else [])
               [kCToolCc, kCToolCxx, kCToolObjC, kCToolObjCxx])"

definition writer_objects :: "Target \<Rightarrow> OutputFile list" where
  "writer_objects target =
     (if \<not> SwiftSourceUsed (source_types_used target)
      then source_objects target (sources target)
      else (case tools (toolchain target) kCToolSwift of
              None \<Rightarrow> []
            | Some tool \<Rightarrow>
                object_outputs target (swift_tool_outputs target tool)
                @ object_outputs target (swift_partial_outputs target tool)))"

text \<open>
  Scenario 2 of the specification: an executable that links a shared library, whose
  dependency output is its \<^verbatim>\<open>.TOC\<close> file, and a static library.
\<close>

definition shared_dep :: TargetCore where
  "shared_dep =
     \<lparr>output_type = SHARED_LIBRARY, sources = [], source_types_used = {},
      GetOutputFilesForSource = (\<lambda>source. None), label_no_toolchain = Some ''//lib:s'',
      link_output_file = ''./libs.so'', dependency_output_file = ''obj/lib/libs.so.TOC'',
      module_output_file = []\<rparr>"

definition static_dep :: TargetCore where
  "static_dep =
     \<lparr>output_type = STATIC_LIBRARY, sources = [], source_types_used = {},
      GetOutputFilesForSource = (\<lambda>source. None), label_no_toolchain = Some ''//lib:t'',
      link_output_file = ''obj/lib/libt.a'', dependency_output_file = ''obj/lib/libt.a'',
      module_output_file = []\<rparr>"

definition app_target :: Target where
  "app_target =
     base_target
       \<lparr>classified_deps :=
          \<lparr>extra_object_files = [], linkable_deps = [shared_dep, static_dep],
           non_linkable_deps = [], framework_deps = [], swiftmodule_deps = []\<rparr>,
        final_tool_outputs := [''x'']\<rparr>"



section \<open>The Swift compile edge\<close>

text \<open>A Swift compile edge on the stream: a build line whose rule is the Swift tool.\<close>

fun is_swift_compile_edge :: "out_item \<Rightarrow> bool" where
  "is_swift_compile_edge (CompilerBuildLine srcs deps order_only rule outs info) =
     (rule = kCToolSwift)"
| "is_swift_compile_edge item = False"

text \<open>
  The lines written by \<^verbatim>\<open>WriteCompilerBuildLine\<close>, and those that name a given source
  among their inputs.
\<close>

fun is_compile_line :: "out_item \<Rightarrow> bool" where
  "is_compile_line (CompilerBuildLine srcs deps order_only rule outs info) = True"
| "is_compile_line item = False"



text \<open>
  Scenario 5 of the specification: two Swift sources with one partial object each. The
  same target with a file that is no Swift source in place of the second Swift source.
\<close>

definition swift_toolchain :: Toolchain where
  "swift_toolchain =
     \<lparr>tools = (\<lambda>name. if name = kCToolSwift
                       then Some \<lparr>category = C_Tool PCH_NONE,
                                  outputs = [''obj/foo/bar.swiftmodule''],
                                  partial_outputs = [''{{source_name_part}}.o'']\<rparr>
                       else None),
      substitution_bits_used = {}\<rparr>"

definition swift_target :: Target where
  "swift_target =
     base_target
       \<lparr>sources := [src ''a.swift'' SOURCE_SWIFT, src ''b.swift'' SOURCE_SWIFT],
        source_types_used := {SOURCE_SWIFT},
        toolchain := swift_toolchain,
        ApplyListToCompilerAsOutputFile :=
          (\<lambda>source patterns. [''obj/foo/'' @ sf_value source @ ''.o'']),
        AsSourceFile := (\<lambda>file. src file SOURCE_O)\<rparr>"

definition swift_mixed :: Target where
  "swift_mixed =
     swift_target
       \<lparr>sources := [src ''a.swift'' SOURCE_SWIFT, src ''README.md'' SOURCE_UNKNOWN],
        source_types_used := {SOURCE_SWIFT, SOURCE_UNKNOWN}\<rparr>"

section \<open>Evaluation of the model on examples\<close>

lemmas example_defs =
  dup_target_def two_sources_def base_target_def fresh_writer_def cxx_only_def c_tool_def
  src_def no_tools_def

lemmas writer_defs =
  Run_def Run_to_object_files_def GetModuleDepsInformation_def Get_def SwiftSourceUsed_def
  WritePCHCommands_def WriteSources_def write_source_def source_deps_def GetToolAsC_def
  precompiled_header_type_def IsModuleMapType_def IsDefType_def WriteCompilerVars_def
  CheckForDuplicateObjectFiles_def FailWithError_def WriteLinkerStuff_def
  link_implicit_deps_def WriteFiles_def WriteOrderOnlyDependencies_def link_tail_def
  WriteOutputSubstitutions_def WriteLibsList_def transitive_rustlibs_def swiftmodules_def
  duplicate_object_error_def duplicate_object_help_def

section \<open>The duplicate-object check\<close>

lemma count_list_pos: "x \<in> set xs \<Longrightarrow> 0 < count_list xs x"
  by (induction xs) auto

lemma first_duplicate_None:
  "first_duplicate seen files = None \<longleftrightarrow> distinct files \<and> set files \<inter> seen = {}"
  by (induction files arbitrary: seen) auto

lemma first_duplicate_Some:
  "first_duplicate seen files = Some f \<Longrightarrow>
     f \<in> set files \<and> (f \<in> seen \<or> 1 < count_list files f)"
proof (induction files arbitrary: seen)
  case Nil
  then show ?case by simp
next
  case (Cons a files)
  show ?case
  proof (cases "a \<in> seen")
    case True
    with Cons.prems show ?thesis by simp
  next
    case False
    with Cons.prems have "first_duplicate (insert a seen) files = Some f" by simp
    from Cons.IH[OF this]
    have "f \<in> set files" and "f \<in> insert a seen \<or> 1 < count_list files f" by auto
    then show ?thesis using count_list_pos[of a files] by (cases "f = a") auto
  qed
qed

lemma duplicate_object_error_names:
  "\<exists>rest. err_help (duplicate_object_error target dup) =
     ''The target '' @ label_user_visible_name target @ [CHR 0x0A]
     @ ''generates two object files with the same name:'' @ [CHR 0x0A]
     @ ''  '' @ dup @ rest"
  by (simp add: duplicate_object_error_def duplicate_object_help_def)

text \<open>
  C1, as the code has it. When the final object-file list (the objects of the sources
  followed by the MSVC PCH objects) holds a path twice, \<^verbatim>\<open>Run\<close> reports one
  duplicate-object error through the scheduler, whose help text names the target and a path
  that occurs at least twice, and returns before the terminal edge: the stream keeps the
  variable block, the PCH edges and the compile edges written before the check, and gets
  neither the stamp edge nor the link edge. When the list has no duplicate, the scheduler
  is left as it was and the stream gets the stamp edge of a source set or the link edge.
\<close>

theorem Run_duplicate_check:
  assumes "Run_to_object_files target = Inr (items, obj_files, other_files, input_deps)"
  shows "(\<not> distinct obj_files \<longrightarrow>
           (\<exists>dup rest. 1 < count_list obj_files dup \<and>
              err_help (duplicate_object_error target dup) =
                ''The target '' @ label_user_visible_name target @ [CHR 0x0A]
                @ ''generates two object files with the same name:'' @ [CHR 0x0A]
                @ ''  '' @ dup @ rest \<and>
              Run target w =
                Inr \<lparr>out = out w @ items,
                     g_scheduler = FailWithError (duplicate_object_error target dup)
                                     (g_scheduler w)\<rparr>))
       \<and> (distinct obj_files \<longrightarrow>
            Run target w =
              Inr \<lparr>out = out w @ items
                      @ (if output_type target = SOURCE_SET then [SourceSetStamp obj_files]
                         else WriteLinkerStuff target obj_files other_files input_deps),
                   g_scheduler = g_scheduler w\<rparr>)"
proof (cases "first_duplicate {} obj_files")
  case None
  then have "distinct obj_files" by (simp add: first_duplicate_None)
  with None assms show ?thesis
    by (simp add: Run_def CheckForDuplicateObjectFiles_def)
next
  case (Some dup)
  then have nd: "\<not> distinct obj_files"
    using first_duplicate_None[of "{}" obj_files] by simp
  from Some have cnt: "1 < count_list obj_files dup"
    using first_duplicate_Some[of "{}" obj_files dup] by simp
  from Some assms have run:
    "Run target w =
       Inr \<lparr>out = out w @ items,
            g_scheduler = FailWithError (duplicate_object_error target dup)
                            (g_scheduler w)\<rparr>"
    by (simp add: Run_def CheckForDuplicateObjectFiles_def)
  from duplicate_object_error_names[of target dup] cnt run nd show ?thesis by blast
qed

theorem Run_duplicate_check_witness:
  "Run_to_object_files dup_target =
     Inr ([CCompilerVars, SharedVars, InputsStamp 2, InputDepsStamp 2,
           CompilerBuildLine [src ''a/x.cc'' SOURCE_CPP] [] [] kCToolCxx [''obj/x.o''] True,
           Pool,
           CompilerBuildLine [src ''b/x.cc'' SOURCE_CPP] [] [] kCToolCxx [''obj/x.o''] True,
           Pool, Endl],
          [''obj/x.o'', ''obj/x.o''], [], [])
   \<and> is_failed (g_scheduler (projr (Run dup_target fresh_writer)))
   \<and> Run_to_object_files two_sources =
       Inr ([CCompilerVars, SharedVars, InputsStamp 2, InputDepsStamp 2,
             CompilerBuildLine [src ''a.cc'' SOURCE_CPP] [] [] kCToolCxx [''obj/a.cc.o'']
               True,
             Pool,
             CompilerBuildLine [src ''b.cc'' SOURCE_CPP] [] [] kCToolCxx [''obj/b.cc.o'']
               True,
             Pool, Endl],
            [''obj/a.cc.o'', ''obj/b.cc.o''], [], [])
   \<and> \<not> is_failed (g_scheduler (projr (Run two_sources fresh_writer)))
   \<and> filter is_build_edge (out (projr (Run two_sources fresh_writer))) =
       [CompilerBuildLine [src ''a.cc'' SOURCE_CPP] [] [] kCToolCxx [''obj/a.cc.o''] True,
        CompilerBuildLine [src ''b.cc'' SOURCE_CPP] [] [] kCToolCxx [''obj/b.cc.o''] True,
        Str ''build'']"
proof -
  have dup: "Run_to_object_files dup_target =
     Inr ([CCompilerVars, SharedVars, InputsStamp 2, InputDepsStamp 2,
           CompilerBuildLine [src ''a/x.cc'' SOURCE_CPP] [] [] kCToolCxx [''obj/x.o''] True,
           Pool,
           CompilerBuildLine [src ''b/x.cc'' SOURCE_CPP] [] [] kCToolCxx [''obj/x.o''] True,
           Pool, Endl],
          [''obj/x.o'', ''obj/x.o''], [], [])"
    by (simp add: example_defs writer_defs)
  have two: "Run_to_object_files two_sources =
       Inr ([CCompilerVars, SharedVars, InputsStamp 2, InputDepsStamp 2,
             CompilerBuildLine [src ''a.cc'' SOURCE_CPP] [] [] kCToolCxx [''obj/a.cc.o'']
               True,
             Pool,
             CompilerBuildLine [src ''b.cc'' SOURCE_CPP] [] [] kCToolCxx [''obj/b.cc.o'']
               True,
             Pool, Endl],
            [''obj/a.cc.o'', ''obj/b.cc.o''], [], [])"
    by (simp add: example_defs writer_defs)
  have "is_failed (g_scheduler (projr (Run dup_target fresh_writer)))"
    using Run_duplicate_check[OF dup, of fresh_writer]
    by (auto simp add: FailWithError_def)
  moreover have "Run two_sources fresh_writer =
      Inr \<lparr>out = out fresh_writer
              @ [CCompilerVars, SharedVars, InputsStamp 2, InputDepsStamp 2,
                 CompilerBuildLine [src ''a.cc'' SOURCE_CPP] [] [] kCToolCxx
                   [''obj/a.cc.o''] True,
                 Pool,
                 CompilerBuildLine [src ''b.cc'' SOURCE_CPP] [] [] kCToolCxx
                   [''obj/b.cc.o''] True,
                 Pool, Endl]
              @ (if output_type two_sources = SOURCE_SET
                 then [SourceSetStamp [''obj/a.cc.o'', ''obj/b.cc.o'']]
                 else WriteLinkerStuff two_sources [''obj/a.cc.o'', ''obj/b.cc.o''] [] []),
           g_scheduler = g_scheduler fresh_writer\<rparr>"
    using Run_duplicate_check[OF two, of fresh_writer] by simp
  then have "\<not> is_failed (g_scheduler (projr (Run two_sources fresh_writer)))
     \<and> filter is_build_edge (out (projr (Run two_sources fresh_writer))) =
       [CompilerBuildLine [src ''a.cc'' SOURCE_CPP] [] [] kCToolCxx [''obj/a.cc.o''] True,
        CompilerBuildLine [src ''b.cc'' SOURCE_CPP] [] [] kCToolCxx [''obj/b.cc.o''] True,
        Str ''build'']"
    by (simp add: example_defs writer_defs)
  ultimately show ?thesis using dup two by simp
qed

text \<open>
  C1 as stated fails on scenario 6: the duplicate-object error for \<^verbatim>\<open>obj/x.o\<close> is
  reported, and the stream holds the two compile edges, written before the check ran.
\<close>

theorem duplicate_after_compile_edges:
  "Run dup_target fresh_writer =
     Inr \<lparr>out =
            [CCompilerVars, SharedVars, InputsStamp 2, InputDepsStamp 2,
             CompilerBuildLine [src ''a/x.cc'' SOURCE_CPP] [] [] kCToolCxx [''obj/x.o'']
               True,
             Pool,
             CompilerBuildLine [src ''b/x.cc'' SOURCE_CPP] [] [] kCToolCxx [''obj/x.o'']
               True,
             Pool, Endl],
          g_scheduler =
            \<lparr>is_failed = True,
             errors = [duplicate_object_error dup_target ''obj/x.o'']\<rparr>\<rparr>
   \<and> filter is_build_edge
        [CCompilerVars, SharedVars, InputsStamp 2, InputDepsStamp 2,
         CompilerBuildLine [src ''a/x.cc'' SOURCE_CPP] [] [] kCToolCxx [''obj/x.o''] True,
         Pool,
         CompilerBuildLine [src ''b/x.cc'' SOURCE_CPP] [] [] kCToolCxx [''obj/x.o''] True,
         Pool, Endl] =
       [CompilerBuildLine [src ''a/x.cc'' SOURCE_CPP] [] [] kCToolCxx [''obj/x.o''] True,
        CompilerBuildLine [src ''b/x.cc'' SOURCE_CPP] [] [] kCToolCxx [''obj/x.o''] True]"
  by (simp add: example_defs writer_defs)

section \<open>Module maps with a wrong number of outputs\<close>

lemmas example2_defs = modules_target_def modules_unused_def a_pcm_def clang_modules_def
  modulemap_no_output_def two_pcm_dep_def links_two_pcm_dep_def

lemma add_fatal: "add t self ret = Inl e \<Longrightarrow> \<exists>msg. e = CHECK_failed msg"
  by (auto simp add: add_def split: option.splits prod.splits list.splits)

lemma add_bad_outputs:
  assumes "GetModuleMapFromTargetSources t = Some mm"
    and "case GetOutputFilesForSource t mm of None \<Rightarrow> True
         | Some (tool, outs) \<Rightarrow> length outs \<noteq> 1"
  shows "\<exists>msg. add t self ret = Inl (CHECK_failed msg)"
  using assms by (auto simp add: add_def split: option.splits prod.splits list.splits)

lemma add_linked_fatal: "add_linked deps ret = Inl e \<Longrightarrow> \<exists>msg. e = CHECK_failed msg"
proof (induction deps arbitrary: ret)
  case Nil
  then show ?case by simp
next
  case (Cons dep deps)
  then show ?case
    by (auto split: if_splits sum.splits dest: add_fatal)
qed

lemma add_linked_bad_outputs:
  assumes "dep \<in> set deps"
    and "Get (source_types_used dep) SOURCE_MODULEMAP"
    and "GetModuleMapFromTargetSources dep = Some mm"
    and "case GetOutputFilesForSource dep mm of None \<Rightarrow> True
         | Some (tool, outs) \<Rightarrow> length outs \<noteq> 1"
  shows "\<exists>msg. add_linked deps ret = Inl (CHECK_failed msg)"
  using assms(1)
proof (induction deps arbitrary: ret)
  case Nil
  then show ?case by simp
next
  case (Cons d deps)
  show ?case
  proof (cases "d = dep")
    case True
    from add_bad_outputs[OF assms(3,4), of False ret] assms(2) True
    show ?thesis by auto
  next
    case False
    with Cons.prems have "dep \<in> set deps" by simp
    from Cons.IH[OF this] show ?thesis
      by (cases "add d False ret") (auto dest: add_fatal)
  qed
qed

lemma GetModuleDepsInformation_fatal:
  "GetModuleDepsInformation t = Inl e \<Longrightarrow> \<exists>msg. e = CHECK_failed msg"
  by (auto simp add: GetModuleDepsInformation_def split: if_splits sum.splits
      dest: add_fatal add_linked_fatal)

lemma Run_module_deps_fatal:
  "GetModuleDepsInformation t = Inl e \<Longrightarrow> Run t w = Inl e"
  by (simp add: Run_def Run_to_object_files_def)

text \<open>
  C8, as the code has it. When the module map of the target, or of a linked dependency
  that exports one, yields no output or more than one (or \<^verbatim>\<open>GetOutputFilesForSource\<close>
  returns false for it), \<^verbatim>\<open>Run\<close> stops at a failed \<^verbatim>\<open>CHECK\<close> inside
  \<^verbatim>\<open>GetModuleDepsInformation\<close>: the process ends there, before anything is written for
  the target, and no error goes through the scheduler.
\<close>

theorem modulemap_outputs_CHECK:
  "(Get (source_types_used target) SOURCE_MODULEMAP \<and>
    GetModuleMapFromTargetSources target = Some mm \<and>
    (case GetOutputFilesForSource target mm of None \<Rightarrow> True
     | Some (tool, outs) \<Rightarrow> length outs \<noteq> 1)
    \<longrightarrow> (\<exists>msg. Run target w = Inl (CHECK_failed msg)))
   \<and> (dep \<in> set (deps_linked target) \<and>
      Get (source_types_used dep) SOURCE_MODULEMAP \<and>
      GetModuleMapFromTargetSources dep = Some mm' \<and>
      (case GetOutputFilesForSource dep mm' of None \<Rightarrow> True
       | Some (tool, outs) \<Rightarrow> length outs \<noteq> 1)
      \<longrightarrow> (\<exists>msg. Run target w = Inl (CHECK_failed msg)))"
proof (intro conjI impI)
  assume a: "Get (source_types_used target) SOURCE_MODULEMAP \<and>
    GetModuleMapFromTargetSources target = Some mm \<and>
    (case GetOutputFilesForSource target mm of None \<Rightarrow> True
     | Some (tool, outs) \<Rightarrow> length outs \<noteq> 1)"
  then obtain msg where "add target True [] = Inl (CHECK_failed msg)"
    using add_bad_outputs[of target mm True "[]"] by blast
  with a have "GetModuleDepsInformation target = Inl (CHECK_failed msg)"
    by (simp add: GetModuleDepsInformation_def)
  then show "\<exists>msg. Run target w = Inl (CHECK_failed msg)"
    by (auto dest: Run_module_deps_fatal)
next
  assume a: "dep \<in> set (deps_linked target) \<and>
      Get (source_types_used dep) SOURCE_MODULEMAP \<and>
      GetModuleMapFromTargetSources dep = Some mm' \<and>
      (case GetOutputFilesForSource dep mm' of None \<Rightarrow> True
       | Some (tool, outs) \<Rightarrow> length outs \<noteq> 1)"
  have "\<exists>e. GetModuleDepsInformation target = Inl e"
  proof (cases "if Get (source_types_used target) SOURCE_MODULEMAP then add target True []
            else Inr []")
    case (Inl e)
    then show ?thesis by (simp add: GetModuleDepsInformation_def)
  next
    case (Inr ret)
    from a add_linked_bad_outputs[of dep "deps_linked target" mm' ret]
    obtain msg where "add_linked (deps_linked target) ret = Inl (CHECK_failed msg)" by blast
    with Inr show ?thesis by (simp add: GetModuleDepsInformation_def)
  qed
  then obtain e where e: "GetModuleDepsInformation target = Inl e" ..
  from GetModuleDepsInformation_fatal[OF e] Run_module_deps_fatal[OF e, of w]
  show "\<exists>msg. Run target w = Inl (CHECK_failed msg)" by auto
qed

theorem modulemap_outputs_CHECK_witness:
  "Get (source_types_used modulemap_no_output) SOURCE_MODULEMAP
   \<and> GetModuleMapFromTargetSources modulemap_no_output
       = Some (src ''a.modulemap'' SOURCE_MODULEMAP)
   \<and> GetOutputFilesForSource modulemap_no_output (src ''a.modulemap'' SOURCE_MODULEMAP)
       = Some (kCToolCxxModule, [])
   \<and> (\<exists>msg. Run modulemap_no_output fresh_writer = Inl (CHECK_failed msg))
   \<and> two_pcm_dep \<in> set (deps_linked links_two_pcm_dep)
   \<and> Get (source_types_used two_pcm_dep) SOURCE_MODULEMAP
   \<and> GetModuleMapFromTargetSources two_pcm_dep = Some (src ''b.modulemap'' SOURCE_MODULEMAP)
   \<and> GetOutputFilesForSource two_pcm_dep (src ''b.modulemap'' SOURCE_MODULEMAP)
       = Some (kCToolCxxModule, [''obj/dep/b.pcm'', ''obj/dep/b2.pcm''])
   \<and> (\<exists>msg. Run links_two_pcm_dep fresh_writer = Inl (CHECK_failed msg))"
proof -
  have self: "Get (source_types_used modulemap_no_output) SOURCE_MODULEMAP
     \<and> GetModuleMapFromTargetSources modulemap_no_output
         = Some (src ''a.modulemap'' SOURCE_MODULEMAP)
     \<and> GetOutputFilesForSource modulemap_no_output (src ''a.modulemap'' SOURCE_MODULEMAP)
         = Some (kCToolCxxModule, [])"
    by (simp add: example_defs example2_defs Get_def GetModuleMapFromTargetSources_def
        IsModuleMapType_def)
  have dep: "two_pcm_dep \<in> set (deps_linked links_two_pcm_dep)
     \<and> Get (source_types_used two_pcm_dep) SOURCE_MODULEMAP
     \<and> GetModuleMapFromTargetSources two_pcm_dep = Some (src ''b.modulemap'' SOURCE_MODULEMAP)
     \<and> GetOutputFilesForSource two_pcm_dep (src ''b.modulemap'' SOURCE_MODULEMAP)
         = Some (kCToolCxxModule, [''obj/dep/b.pcm'', ''obj/dep/b2.pcm''])"
    by (simp add: example_defs example2_defs Get_def GetModuleMapFromTargetSources_def
        IsModuleMapType_def)
  have "\<exists>msg. Run modulemap_no_output fresh_writer = Inl (CHECK_failed msg)"
    using self
      modulemap_outputs_CHECK[of modulemap_no_output "src ''a.modulemap'' SOURCE_MODULEMAP"
        fresh_writer two_pcm_dep "src ''b.modulemap'' SOURCE_MODULEMAP"]
    by simp
  moreover have "\<exists>msg. Run links_two_pcm_dep fresh_writer = Inl (CHECK_failed msg)"
    using dep
      modulemap_outputs_CHECK[of links_two_pcm_dep "src ''a.modulemap'' SOURCE_MODULEMAP"
        fresh_writer two_pcm_dep "src ''b.modulemap'' SOURCE_MODULEMAP"]
    by simp
  ultimately show ?thesis using self dep by simp
qed

text \<open>
  C8 as stated fails: for a module map without output the writer does not return with an
  error on the scheduler, it stops the process at the \<^verbatim>\<open>CHECK\<close> on the number of
  outputs.
\<close>

theorem modulemap_no_output_stops_process:
  "Run modulemap_no_output fresh_writer = Inl (CHECK_failed ''modulemap_outputs.size() == 1u'')"
  by (simp add: example_defs example2_defs writer_defs add_def
      GetModuleMapFromTargetSources_def)

section \<open>The module-file substitution variables\<close>

lemma module_file_args_True:
  "module_file_args mdi True =
     concat (map (\<lambda>m. [Str '' '', EscapeString ''-fmodule-file='', File (pcm m)]) mdi)"
  by (induction mdi) auto

lemma module_file_args_False:
  "module_file_args mdi False =
     concat (map (\<lambda>m. [Str '' '', EscapeString ''-fmodule-file='', File (pcm m)])
               (filter (\<lambda>m. \<not> is_self m) mdi))"
  by (induction mdi) auto

text \<open>
  C6, as the code has it. With module dependency records and C++ or module-map sources,
  the variable block holds, between the compiler variables and the shared variables, the
  variable of each of the two module-file substitutions that the toolchain uses, and none
  for one it does not use. The first variable selects every record (the target's own
  \<^verbatim>\<open>.pcm\<close> included), the second the records that are not the target's own; each value is
  \<^verbatim>\<open>-Xclang -fmodules-embed-all-files\<close> followed by one \<^verbatim>\<open>-fmodule-file=\<close> argument per
  selected record.
\<close>

theorem WriteCompilerVars_module_deps:
  assumes "module_dep_info \<noteq> []"
    and "Get (source_types_used target) SOURCE_CPP \<or>
         Get (source_types_used target) SOURCE_MODULEMAP"
  shows "WriteCompilerVars target module_dep_info =
     [CCompilerVars]
     @ (if CSubstitutionModuleDeps \<in> substitution_bits_used (toolchain target)
        then [NinjaName CSubstitutionModuleDeps, Str '' = -Xclang '',
              EscapeString ''-fmodules-embed-all-files'']
             @ concat (map (\<lambda>m. [Str '' '', EscapeString ''-fmodule-file='', File (pcm m)])
                         module_dep_info)
             @ [Endl]
        else [])
     @ (if CSubstitutionModuleDepsNoSelf \<in> substitution_bits_used (toolchain target)
        then [NinjaName CSubstitutionModuleDepsNoSelf, Str '' = -Xclang '',
              EscapeString ''-fmodules-embed-all-files'']
             @ concat (map (\<lambda>m. [Str '' '', EscapeString ''-fmodule-file='', File (pcm m)])
                         (filter (\<lambda>m. \<not> is_self m) module_dep_info))
             @ [Endl]
        else [])
     @ [SharedVars]"
  using assms
  by (simp add: WriteCompilerVars_def WriteModuleDepsSubstitution_def
      module_file_args_True module_file_args_False)

theorem WriteCompilerVars_module_deps_witness:
  "[a_pcm] \<noteq> []
   \<and> Get (source_types_used modules_target) SOURCE_CPP
   \<and> GetModuleDepsInformation modules_target = Inr [a_pcm]
   \<and> WriteCompilerVars modules_target [a_pcm] =
       [CCompilerVars,
        NinjaName CSubstitutionModuleDeps, Str '' = -Xclang '',
        EscapeString ''-fmodules-embed-all-files'',
        Str '' '', EscapeString ''-fmodule-file='', File ''obj/foo/a.pcm'', Endl,
        NinjaName CSubstitutionModuleDepsNoSelf, Str '' = -Xclang '',
        EscapeString ''-fmodules-embed-all-files'', Endl,
        SharedVars]"
proof -
  have cpp: "Get (source_types_used modules_target) SOURCE_CPP"
    by (simp add: example_defs example2_defs Get_def)
  have info: "GetModuleDepsInformation modules_target = Inr [a_pcm]"
    by (simp add: example_defs example2_defs writer_defs add_def
        GetModuleMapFromTargetSources_def)
  have "WriteCompilerVars modules_target [a_pcm] =
       [CCompilerVars,
        NinjaName CSubstitutionModuleDeps, Str '' = -Xclang '',
        EscapeString ''-fmodules-embed-all-files'',
        Str '' '', EscapeString ''-fmodule-file='', File ''obj/foo/a.pcm'', Endl,
        NinjaName CSubstitutionModuleDepsNoSelf, Str '' = -Xclang '',
        EscapeString ''-fmodules-embed-all-files'', Endl,
        SharedVars]"
    using WriteCompilerVars_module_deps[of "[a_pcm]" modules_target] cpp
    by (simp add: example_defs example2_defs)
  with cpp info show ?thesis by simp
qed

text \<open>
  C6 as stated fails under a toolchain whose tools use neither substitution: there are
  module dependency records and C++ sources, and the variable block has no module-file
  variable.
\<close>

theorem no_module_deps_variable_when_unused:
  "GetModuleDepsInformation modules_unused = Inr [a_pcm]
   \<and> Get (source_types_used modules_unused) SOURCE_CPP
   \<and> WriteCompilerVars modules_unused [a_pcm] = [CCompilerVars, SharedVars]"
  by (simp add: example_defs example2_defs writer_defs add_def
      GetModuleMapFromTargetSources_def WriteModuleDepsSubstitution_def)

section \<open>The PCH writer\<close>

lemmas example3_defs = pch_toolchain_def gcc_pch_target_def msvc_pch_target_def
  objc_msvc_target_def

lemmas pch_defs = WritePCHCommand_def WriteGCCPCHCommand_def WriteWindowsPCHCommand_def
  and_then_def gcc_flags_def pch_edge_def writes_pch_def pch_dialect_accepted_def
  pch_outputs_def writer_objects_def pch_dep_applies_def Let_def

lemma gcc_flags_no_edge: "filter is_build_edge (gcc_flags n) = []"
  by (simp add: gcc_flags_def)

lemma WritePCHCommand_edges:
  "filter is_build_edge (fst (WritePCHCommand t f name d ideps oo)) =
     (if d \<noteq> PCH_NONE \<and> GetPCHOutputFiles t name \<noteq> [] then [pch_edge t name ideps oo] else [])"
  by (cases d)
     (simp_all add: WritePCHCommand_def WriteGCCPCHCommand_def WriteWindowsPCHCommand_def
       pch_edge_def Let_def gcc_flags_no_edge)

lemma fst_and_then: "fst (and_then x y) = fst x @ fst y"
  by (simp add: and_then_def)

lemma block_any_edges:
  "filter is_build_edge
     (fst (case dialect of
             None \<Rightarrow> ([], [], [])
           | Some header_type \<Rightarrow>
               if header_type \<noteq> PCH_NONE \<and> used
               then WritePCHCommand t f name header_type ideps oo
               else ([], [], []))) =
   (if (case dialect of None \<Rightarrow> False | Some d \<Rightarrow> d \<noteq> PCH_NONE) \<and> used \<and>
       GetPCHOutputFiles t name \<noteq> []
    then [pch_edge t name ideps oo] else [])"
  by (cases dialect) (simp_all add: WritePCHCommand_edges)

lemma block_gcc_edges:
  "filter is_build_edge
     (fst (case dialect of
             None \<Rightarrow> ([], [], [])
           | Some header_type \<Rightarrow>
               if header_type = PCH_GCC \<and> used
               then WritePCHCommand t f name header_type ideps oo
               else ([], [], []))) =
   (if (case dialect of None \<Rightarrow> False | Some d \<Rightarrow> d = PCH_GCC) \<and> used \<and>
       GetPCHOutputFiles t name \<noteq> []
    then [pch_edge t name ideps oo] else [])"
  by (cases dialect) (simp_all add: WritePCHCommand_edges)

lemma writes_pch_simps:
  "writes_pch t kCToolCc =
     (has_precompiled_headers (config_values t) \<and>
      (case GetToolAsC (toolchain t) kCToolCc of None \<Rightarrow> False | Some d \<Rightarrow> d \<noteq> PCH_NONE) \<and>
      Get (source_types_used t) SOURCE_C \<and> GetPCHOutputFiles t kCToolCc \<noteq> [])"
  "writes_pch t kCToolCxx =
     (has_precompiled_headers (config_values t) \<and>
      (case GetToolAsC (toolchain t) kCToolCxx of None \<Rightarrow> False | Some d \<Rightarrow> d \<noteq> PCH_NONE) \<and>
      Get (source_types_used t) SOURCE_CPP \<and> GetPCHOutputFiles t kCToolCxx \<noteq> [])"
  "writes_pch t kCToolObjC =
     (has_precompiled_headers (config_values t) \<and>
      (case GetToolAsC (toolchain t) kCToolObjC of None \<Rightarrow> False | Some d \<Rightarrow> d = PCH_GCC) \<and>
      Get (source_types_used t) SOURCE_M \<and> GetPCHOutputFiles t kCToolObjC \<noteq> [])"
  "writes_pch t kCToolObjCxx =
     (has_precompiled_headers (config_values t) \<and>
      (case GetToolAsC (toolchain t) kCToolObjCxx of None \<Rightarrow> False | Some d \<Rightarrow> d = PCH_GCC) \<and>
      Get (source_types_used t) SOURCE_MM \<and> GetPCHOutputFiles t kCToolObjCxx \<noteq> [])"
  by (simp_all add: writes_pch_def pch_dialect_accepted_def split: option.splits)

lemma WritePCHCommands_edges_aux:
  "filter is_build_edge (fst (WritePCHCommands target input_deps order_only_deps)) =
     concat (map (\<lambda>name. if writes_pch target name
                          then [pch_edge target name input_deps order_only_deps] else [])
               [kCToolCc, kCToolCxx, kCToolObjC, kCToolObjCxx])"
proof (cases "has_precompiled_headers (config_values target)")
  case False
  then show ?thesis by (simp add: WritePCHCommands_def writes_pch_def)
next
  case True
  then show ?thesis
    unfolding WritePCHCommands_def
    by (simp only: if_not_P not_not if_True if_False fst_and_then filter_append block_any_edges
        block_gcc_edges writes_pch_simps list.map concat.simps append_Nil2 simp_thms)
qed

text \<open>
  C3, as the code has it. For a target with precompiled headers, the build edges of the PCH
  writer are, in the order C, C++, ObjC, ObjC++, exactly one edge for each language tool
  for which \<open>writes_pch\<close> holds, compiling the precompiled-header source with that tool: the
  C and C++ tools with any dialect but none, the ObjC and ObjC++ tools with the GCC dialect
  only, when the target uses sources of the language and the tool has PCH outputs. A target
  without precompiled headers gets no PCH edge.
\<close>

theorem WritePCHCommands_edges:
  "filter is_build_edge (fst (WritePCHCommands target input_deps order_only_deps)) =
     concat (map (\<lambda>name. if writes_pch target name
                          then [pch_edge target name input_deps order_only_deps] else [])
               [kCToolCc, kCToolCxx, kCToolObjC, kCToolObjCxx])"
  by (rule WritePCHCommands_edges_aux)

theorem WritePCHCommands_edges_witness:
  "writes_pch gcc_pch_target kCToolCxx
   \<and> filter is_build_edge (fst (WritePCHCommands gcc_pch_target [] [])) =
       [CompilerBuildLine [src ''//build/precompile.h'' SOURCE_H] [] [] kCToolCxx
          [''obj/build/bar.precompile.h-cc.gch''] True]"
proof -
  have w: "writes_pch gcc_pch_target kCToolCxx \<and> \<not> writes_pch gcc_pch_target kCToolCc
           \<and> \<not> writes_pch gcc_pch_target kCToolObjC \<and> \<not> writes_pch gcc_pch_target kCToolObjCxx"
    by (simp add: example_defs example3_defs pch_defs GetToolAsC_def Get_def
        precompiled_header_type_def)
  then show ?thesis
    using WritePCHCommands_edges[of gcc_pch_target "[]" "[]"]
    by (simp add: pch_edge_def example_defs example3_defs)
qed

text \<open>
  C3 as stated fails for Objective-C under a tool of the MSVC dialect: the tool declares a
  dialect other than none, the target has precompiled headers, Objective-C sources and PCH
  outputs, and the PCH writer emits nothing.
\<close>

theorem objc_msvc_without_pch_edge:
  "GetToolAsC (toolchain objc_msvc_target) kCToolObjC = Some PCH_MSVC
   \<and> Get (source_types_used objc_msvc_target) SOURCE_M
   \<and> has_precompiled_headers (config_values objc_msvc_target)
   \<and> GetPCHOutputFiles objc_msvc_target kCToolObjC = [''obj/build/bar.precompile.cc.obj'']
   \<and> WritePCHCommands objc_msvc_target [] [] = ([], [], [])"
  by (simp add: example_defs example3_defs pch_defs GetToolAsC_def Get_def
      precompiled_header_type_def WritePCHCommands_def)

section \<open>The final object-file list\<close>

lemma snd_and_then:
  "fst (snd (and_then x y)) = fst (snd x) @ fst (snd y)"
  "snd (snd (and_then x y)) = snd (snd x) @ snd (snd y)"
  by (simp_all add: and_then_def)

lemma WritePCHCommand_vectors:
  "fst (snd (WritePCHCommand t f name d ideps oo)) =
     (if d = PCH_MSVC then GetPCHOutputFiles t name else [])"
  "snd (snd (WritePCHCommand t f name d ideps oo)) =
     (if d = PCH_GCC then GetPCHOutputFiles t name else [])"
  by (cases d;
      simp add: WritePCHCommand_def WriteGCCPCHCommand_def WriteWindowsPCHCommand_def Let_def)+

lemma block_any_vectors:
  "fst (snd (case dialect of
             None \<Rightarrow> ([], [], [])
           | Some header_type \<Rightarrow>
               if header_type \<noteq> PCH_NONE \<and> used
               then WritePCHCommand t f name header_type ideps oo
               else ([], [], []))) =
   (if ((case dialect of None \<Rightarrow> False | Some d \<Rightarrow> d \<noteq> PCH_NONE) \<and> used \<and>
       GetPCHOutputFiles t name \<noteq> []) \<and> dialect = Some PCH_MSVC
    then GetPCHOutputFiles t name else [])"
  "snd (snd (case dialect of
             None \<Rightarrow> ([], [], [])
           | Some header_type \<Rightarrow>
               if header_type \<noteq> PCH_NONE \<and> used
               then WritePCHCommand t f name header_type ideps oo
               else ([], [], []))) =
   (if ((case dialect of None \<Rightarrow> False | Some d \<Rightarrow> d \<noteq> PCH_NONE) \<and> used \<and>
       GetPCHOutputFiles t name \<noteq> []) \<and> dialect = Some PCH_GCC
    then GetPCHOutputFiles t name else [])"
  by (cases dialect; auto simp add: WritePCHCommand_vectors)+

lemma block_gcc_vectors:
  "fst (snd (case dialect of
             None \<Rightarrow> ([], [], [])
           | Some header_type \<Rightarrow>
               if header_type = PCH_GCC \<and> used
               then WritePCHCommand t f name header_type ideps oo
               else ([], [], []))) =
   (if ((case dialect of None \<Rightarrow> False | Some d \<Rightarrow> d = PCH_GCC) \<and> used \<and>
       GetPCHOutputFiles t name \<noteq> []) \<and> dialect = Some PCH_MSVC
    then GetPCHOutputFiles t name else [])"
  "snd (snd (case dialect of
             None \<Rightarrow> ([], [], [])
           | Some header_type \<Rightarrow>
               if header_type = PCH_GCC \<and> used
               then WritePCHCommand t f name header_type ideps oo
               else ([], [], []))) =
   (if ((case dialect of None \<Rightarrow> False | Some d \<Rightarrow> d = PCH_GCC) \<and> used \<and>
       GetPCHOutputFiles t name \<noteq> []) \<and> dialect = Some PCH_GCC
    then GetPCHOutputFiles t name else [])"
  by (cases dialect; auto simp add: WritePCHCommand_vectors)+

lemma WritePCHCommands_vectors:
  "fst (snd (WritePCHCommands target input_deps order_only_deps)) = pch_outputs target PCH_MSVC"
  "snd (snd (WritePCHCommands target input_deps order_only_deps)) = pch_outputs target PCH_GCC"
proof -
  show "fst (snd (WritePCHCommands target input_deps order_only_deps)) = pch_outputs target PCH_MSVC"
  proof (cases "has_precompiled_headers (config_values target)")
    case False
    then show ?thesis by (simp add: WritePCHCommands_def writes_pch_def pch_outputs_def)
  next
    case True
    then show ?thesis
      unfolding WritePCHCommands_def pch_outputs_def
      by (simp only: if_not_P not_not if_True if_False snd_and_then block_any_vectors
          block_gcc_vectors writes_pch_simps list.map concat.simps append_Nil2 simp_thms)
  qed
  show "snd (snd (WritePCHCommands target input_deps order_only_deps)) = pch_outputs target PCH_GCC"
  proof (cases "has_precompiled_headers (config_values target)")
    case False
    then show ?thesis by (simp add: WritePCHCommands_def writes_pch_def pch_outputs_def)
  next
    case True
    then show ?thesis
      unfolding WritePCHCommands_def pch_outputs_def
      by (simp only: if_not_P not_not if_True if_False snd_and_then block_any_vectors
          block_gcc_vectors writes_pch_simps list.map concat.simps append_Nil2 simp_thms)
  qed
qed












section \<open>The linkable dependencies of the link edge\<close>

lemmas example4_defs = shared_dep_def static_dep_def app_target_def

lemma linkable_deps_loop_vectors:
  "linkable_deps_loop deps (items, implicit_deps, solibs) =
     (items @ concat (map (\<lambda>d. [Str '' '', File (link_output_file d)])
                (filter (\<lambda>d. output_type d \<noteq> RUST_LIBRARY \<and>
                              output_type d \<noteq> RUST_PROC_MACRO \<and>
                              dependency_output_file d = link_output_file d) deps)),
      implicit_deps @ map dependency_output_file
                (filter (\<lambda>d. output_type d \<noteq> RUST_LIBRARY \<and>
                              output_type d \<noteq> RUST_PROC_MACRO \<and>
                              dependency_output_file d \<noteq> link_output_file d) deps),
      solibs @ map link_output_file
                (filter (\<lambda>d. output_type d \<noteq> RUST_LIBRARY \<and>
                              output_type d \<noteq> RUST_PROC_MACRO \<and>
                              dependency_output_file d \<noteq> link_output_file d) deps))"
  by (induction deps arbitrary: items implicit_deps solibs) auto

lemma concat_map_split:
  assumes "d \<in> set ds"
  shows "\<exists>before after. concat (map f ds) = before @ f d @ after"
proof -
  from assms obtain xs ys where "ds = xs @ d # ys" by (auto dest: split_list)
  then have "concat (map f ds) = concat (map f xs) @ f d @ concat (map f ys)" by simp
  then show ?thesis by blast
qed

lemma map_pair_index:
  assumes "d \<in> set ds"
  shows "\<exists>i<length ds. map f ds ! i = f d \<and> map g ds ! i = g d"
proof -
  from assms obtain i where "i < length ds" "ds ! i = d" by (auto simp add: in_set_conv_nth)
  then show ?thesis by auto
qed

lemma WriteLibsList_member:
  "x \<in> set libs \<Longrightarrow> CommandFile x \<in> set (WriteLibsList label libs)"
  by (cases libs) (auto simp add: WriteLibsList_def WriteCommandFiles_def)

text \<open>
  C2. The link edge is the build line below, with the items \<open>direct\<close> written by the loop
  over the linkable dependencies after the object files, the implicit dependencies after
  \<^verbatim>\<open>|\<close> starting with the vector \<open>from_linkable\<close> of that loop, and the \<^verbatim>\<open>solibs\<close> line of
  the vector \<open>solibs\<close>. For a linkable dependency \<open>D\<close> that is no Rust library or proc-macro:
  when its dependency output differs from its link output, the two stand at the same index
  of \<open>from_linkable\<close> and \<open>solibs\<close>, so the dependency output is among the implicit inputs
  and the link output on the \<^verbatim>\<open>solibs\<close> line; otherwise its link output is written in
  \<open>direct\<close>, among the explicit inputs.
\<close>

theorem link_edge_linkable_deps:
  assumes "D \<in> set (linkable_deps (classified_deps target))"
    and "output_type D \<noteq> RUST_LIBRARY" and "output_type D \<noteq> RUST_PROC_MACRO"
  shows "\<exists>direct from_linkable solibs.
      WriteLinkerStuff target object_files other_files input_deps =
        [Str ''build'']
        @ WriteFiles (ApplyListToLinkerAsOutputFile target
                        (tool_type_for_target_final_output target) (final_tool_outputs target))
        @ [Str ('': '' @ rule_prefix target),
           ToolType (tool_type_for_target_final_output target)]
        @ WriteFiles object_files
        @ WriteFiles (extra_object_files (classified_deps target))
        @ direct
        @ (if link_implicit_deps target from_linkable other_files input_deps \<noteq> []
           then Str '' |''
                # WriteFiles (link_implicit_deps target from_linkable other_files input_deps)
           else [])
        @ WriteOrderOnlyDependencies (non_linkable_deps (classified_deps target))
        @ [Endl]
        @ link_tail target (find IsDefType other_files)
        @ WriteOutputSubstitutions
        @ WriteLibsList ''solibs'' solibs
        @ WriteLibsList ''rlibs'' (transitive_rustlibs target)
        @ [Pool]
      \<and> length from_linkable = length solibs
      \<and> (dependency_output_file D \<noteq> link_output_file D \<longrightarrow>
           (\<exists>i<length solibs. from_linkable ! i = dependency_output_file D \<and>
                               solibs ! i = link_output_file D)
           \<and> dependency_output_file D
               \<in> set (link_implicit_deps target from_linkable other_files input_deps)
           \<and> CommandFile (link_output_file D) \<in> set (WriteLibsList ''solibs'' solibs))
      \<and> (dependency_output_file D = link_output_file D \<longrightarrow>
           (\<exists>before after.
              direct = before @ [Str '' '', File (link_output_file D)] @ after))"
proof -
  let ?rust = "\<lambda>d::TargetCore. output_type d \<noteq> RUST_LIBRARY \<and> output_type d \<noteq> RUST_PROC_MACRO"
  let ?shared = "filter (\<lambda>d. ?rust d \<and> dependency_output_file d \<noteq> link_output_file d)
                   (linkable_deps (classified_deps target))"
  let ?plain = "filter (\<lambda>d. ?rust d \<and> dependency_output_file d = link_output_file d)
                   (linkable_deps (classified_deps target))"
  let ?direct = "concat (map (\<lambda>d. [Str '' '', File (link_output_file d)]) ?plain)"
  let ?from = "map dependency_output_file ?shared"
  let ?solibs = "map link_output_file ?shared"
  have loop: "linkable_deps_loop (linkable_deps (classified_deps target)) ([], [], [])
                = (?direct, ?from, ?solibs)"
    using linkable_deps_loop_vectors[of "linkable_deps (classified_deps target)" "[]" "[]" "[]"]
    by simp
  have eq: "WriteLinkerStuff target object_files other_files input_deps =
        [Str ''build'']
        @ WriteFiles (ApplyListToLinkerAsOutputFile target
                        (tool_type_for_target_final_output target) (final_tool_outputs target))
        @ [Str ('': '' @ rule_prefix target),
           ToolType (tool_type_for_target_final_output target)]
        @ WriteFiles object_files
        @ WriteFiles (extra_object_files (classified_deps target))
        @ ?direct
        @ (if link_implicit_deps target ?from other_files input_deps \<noteq> []
           then Str '' |''
                # WriteFiles (link_implicit_deps target ?from other_files input_deps)
           else [])
        @ WriteOrderOnlyDependencies (non_linkable_deps (classified_deps target))
        @ [Endl]
        @ link_tail target (find IsDefType other_files)
        @ WriteOutputSubstitutions
        @ WriteLibsList ''solibs'' ?solibs
        @ WriteLibsList ''rlibs'' (transitive_rustlibs target)
        @ [Pool]"
    unfolding WriteLinkerStuff_def loop by (simp add: Let_def)
  have len: "length ?from = length ?solibs" by simp
  have shared: "(\<exists>i<length ?solibs. ?from ! i = dependency_output_file D \<and>
                               ?solibs ! i = link_output_file D)
           \<and> dependency_output_file D
               \<in> set (link_implicit_deps target ?from other_files input_deps)
           \<and> CommandFile (link_output_file D) \<in> set (WriteLibsList ''solibs'' ?solibs)"
    if ne: "dependency_output_file D \<noteq> link_output_file D"
  proof -
    from assms ne have mem: "D \<in> set ?shared" by simp
    from map_pair_index[OF mem, of dependency_output_file link_output_file]
    have idx: "\<exists>i<length ?solibs. ?from ! i = dependency_output_file D \<and>
                               ?solibs ! i = link_output_file D"
      by simp
    from mem have "dependency_output_file D \<in> set ?from" by (simp only: set_map) (rule imageI)
    then have impl: "dependency_output_file D
               \<in> set (link_implicit_deps target ?from other_files input_deps)"
      by (simp add: link_implicit_deps_def)
    from mem have s: "link_output_file D \<in> set ?solibs" by (simp only: set_map) (rule imageI)
    then have "CommandFile (link_output_file D) \<in> set (WriteLibsList ''solibs'' ?solibs)"
      by (rule WriteLibsList_member)
    with idx impl show ?thesis by blast
  qed
  have plain: "\<exists>before after.
              ?direct = before @ [Str '' '', File (link_output_file D)] @ after"
    if e: "dependency_output_file D = link_output_file D"
  proof -
    from assms e have "D \<in> set ?plain" by simp
    from concat_map_split[OF this, of "\<lambda>d. [Str '' '', File (link_output_file d)]"]
    show ?thesis .
  qed
  from eq len shared plain show ?thesis by blast
qed

theorem link_edge_linkable_deps_witness:
  "shared_dep \<in> set (linkable_deps (classified_deps app_target))
   \<and> output_type shared_dep \<noteq> RUST_LIBRARY \<and> output_type shared_dep \<noteq> RUST_PROC_MACRO
   \<and> dependency_output_file shared_dep \<noteq> link_output_file shared_dep
   \<and> (\<exists>from_linkable solibs i.
         i < length solibs \<and> from_linkable ! i = ''obj/lib/libs.so.TOC'' \<and>
         solibs ! i = ''./libs.so'' \<and>
         ''obj/lib/libs.so.TOC'' \<in> set (link_implicit_deps app_target from_linkable [] []) \<and>
         CommandFile ''./libs.so'' \<in> set (WriteLibsList ''solibs'' solibs))
   \<and> static_dep \<in> set (linkable_deps (classified_deps app_target))
   \<and> output_type static_dep \<noteq> RUST_LIBRARY \<and> output_type static_dep \<noteq> RUST_PROC_MACRO
   \<and> dependency_output_file static_dep = link_output_file static_dep
   \<and> (\<exists>direct before after. direct = before @ [Str '' '', File ''obj/lib/libt.a''] @ after)
   \<and> WriteLinkerStuff app_target [] [] [] =
       [Str ''build'', Str '' '', File ''x'', Str '': '', ToolType (kOtherTool ''link''),
        Str '' '', File ''obj/lib/libt.a'',
        Str '' |'', Str '' '', File ''obj/lib/libs.so.TOC'', Endl,
        Str ''  ldflags ='', LinkerFlags None, Endl, Str ''  libs ='', Libs, Endl,
        Str ''  frameworks ='', Frameworks, Endl,
        Str ''  swiftmodules ='', SwiftModules [], Endl,
        Str ''  output_extension = '', LinkerSubstitution SubstitutionOutputExtension, Endl,
        Str ''  output_dir = '', LinkerSubstitution SubstitutionOutputDir, Endl,
        Str ''  solibs ='', Str '' '', CommandFile ''./libs.so'', Endl, Pool]"
proof -
  have s: "shared_dep \<in> set (linkable_deps (classified_deps app_target))
     \<and> output_type shared_dep \<noteq> RUST_LIBRARY \<and> output_type shared_dep \<noteq> RUST_PROC_MACRO
     \<and> dependency_output_file shared_dep \<noteq> link_output_file shared_dep
     \<and> dependency_output_file shared_dep = ''obj/lib/libs.so.TOC''
     \<and> link_output_file shared_dep = ''./libs.so''"
    by (simp add: example_defs example4_defs)
  have t: "static_dep \<in> set (linkable_deps (classified_deps app_target))
     \<and> output_type static_dep \<noteq> RUST_LIBRARY \<and> output_type static_dep \<noteq> RUST_PROC_MACRO
     \<and> dependency_output_file static_dep = link_output_file static_dep
     \<and> link_output_file static_dep = ''obj/lib/libt.a''"
    by (simp add: example_defs example4_defs)
  have "\<exists>from_linkable solibs i.
         i < length solibs \<and> from_linkable ! i = ''obj/lib/libs.so.TOC'' \<and>
         solibs ! i = ''./libs.so'' \<and>
         ''obj/lib/libs.so.TOC'' \<in> set (link_implicit_deps app_target from_linkable [] []) \<and>
         CommandFile ''./libs.so'' \<in> set (WriteLibsList ''solibs'' solibs)"
    using link_edge_linkable_deps[of shared_dep app_target "[]" "[]" "[]"] s by auto
  moreover
  have "\<exists>direct before after. direct = before @ [Str '' '', File ''obj/lib/libt.a''] @ after"
    using link_edge_linkable_deps[of static_dep app_target "[]" "[]" "[]"] t by auto
  moreover
  have "WriteLinkerStuff app_target [] [] [] =
       [Str ''build'', Str '' '', File ''x'', Str '': '', ToolType (kOtherTool ''link''),
        Str '' '', File ''obj/lib/libt.a'',
        Str '' |'', Str '' '', File ''obj/lib/libs.so.TOC'', Endl,
        Str ''  ldflags ='', LinkerFlags None, Endl, Str ''  libs ='', Libs, Endl,
        Str ''  frameworks ='', Frameworks, Endl,
        Str ''  swiftmodules ='', SwiftModules [], Endl,
        Str ''  output_extension = '', LinkerSubstitution SubstitutionOutputExtension, Endl,
        Str ''  output_dir = '', LinkerSubstitution SubstitutionOutputDir, Endl,
        Str ''  solibs ='', Str '' '', CommandFile ''./libs.so'', Endl, Pool]"
    by (simp add: example_defs example4_defs writer_defs WriteCommandFiles_def)
  ultimately show ?thesis using s t by simp
qed

section \<open>The edges of the C-family source writer\<close>







section \<open>Where build lines are written\<close>

text \<open>
  The variable block and the link edge hold no line of \<^verbatim>\<open>WriteCompilerBuildLine\<close>; the
  build lines of the PCH writer are its PCH edges.
\<close>

lemma filter_compile_lines:
  assumes "\<And>item. P item \<Longrightarrow> is_compile_line item"
  shows "filter P (filter is_compile_line items) = filter P items"
proof -
  have "(\<lambda>item. is_compile_line item \<and> P item) = P" using assms by auto
  then show ?thesis by simp
qed

lemma is_swift_compile_edge_line: "is_swift_compile_edge item \<Longrightarrow> is_compile_line item"
  by (cases item) simp_all


lemma is_compile_line_build_edge: "is_compile_line item \<Longrightarrow> is_build_edge item"
  by (cases item) simp_all

lemma compile_lines_WriteFiles: "filter is_compile_line (WriteFiles files) = []"
  by (induction files) (simp_all add: WriteFiles_def)

lemma compile_lines_WriteCommandFiles: "filter is_compile_line (WriteCommandFiles files) = []"
  by (induction files) (simp_all add: WriteCommandFiles_def)

lemma compile_lines_module_file_args: "filter is_compile_line (module_file_args mdi self) = []"
  by (induction mdi) simp_all

lemma compile_lines_WriteCompilerVars: "filter is_compile_line (WriteCompilerVars t mdi) = []"
  by (simp add: WriteCompilerVars_def WriteModuleDepsSubstitution_def
      compile_lines_module_file_args)

lemma compile_lines_WriteLinkerStuff:
  "filter is_compile_line (WriteLinkerStuff t objs others ideps) = []"
  unfolding WriteLinkerStuff_def linkable_deps_loop_vectors[of _ "[]" "[]" "[]"]
  by (simp add: Let_def compile_lines_WriteFiles compile_lines_WriteCommandFiles
      WriteOrderOnlyDependencies_def link_tail_def WriteOutputSubstitutions_def
      WriteLibsList_def filter_concat)

lemma compile_lines_WritePCHCommands:
  "filter is_compile_line (fst (WritePCHCommands target input_deps order_only_deps)) =
     concat (map (\<lambda>name. if writes_pch target name
                          then [pch_edge target name input_deps order_only_deps] else [])
               [kCToolCc, kCToolCxx, kCToolObjC, kCToolObjCxx])"
proof -
  have "filter is_compile_line (fst (WritePCHCommands target input_deps order_only_deps)) =
      filter is_compile_line
        (filter is_build_edge (fst (WritePCHCommands target input_deps order_only_deps)))"
  proof -
    have "(\<lambda>item. is_build_edge item \<and> is_compile_line item) = is_compile_line"
      using is_compile_line_build_edge by auto
    then show ?thesis by simp
  qed
  then show ?thesis
    unfolding WritePCHCommands_edges_aux by (simp add: pch_edge_def)
qed

text \<open>The build lines of the source writer: one for every source with a tool.\<close>

lemma compile_lines_write_source:
  assumes "write_source t p i oo m s tool outs = Inr edge"
    and "item \<in> set edge" and "is_compile_line item"
  shows "tool \<noteq> kToolNone \<and>
         (\<exists>deps. item = CompilerBuildLine [s] deps oo tool outs True)"
  using assms by (auto simp add: write_source_def split: if_splits sum.splits)

lemma compile_lines_WriteSources_loop:
  assumes "WriteSources_loop t p i oo m srcs (its, objs, others) = Inr (its', objs', others')"
    and "item \<in> set its'" and "is_compile_line item"
  shows "item \<in> set its
         \<or> (\<exists>s tool outs deps. s \<in> set srcs \<and> GetOutputFilesForSource t s = Some (tool, outs) \<and>
              tool \<noteq> kToolNone \<and> item = CompilerBuildLine [s] deps oo tool outs True)"
  using assms(1,2)
proof (induction srcs arbitrary: its objs others)
  case Nil
  then show ?case by simp
next
  case (Cons s srcs)
  show ?case
  proof (cases "GetOutputFilesForSource t s")
    case None
    with Cons.prems Cons.IH[of its objs "if IsDefType s then others @ [s] else others"]
    show ?thesis by auto
  next
    case (Some r)
    obtain tool' outs' where r: "r = (tool', outs')" by (cases r)
    from Cons.prems(1) Some r obtain edge
      where edge: "write_source t p i oo m s tool' outs' = Inr edge"
      by (cases "write_source t p i oo m s tool' outs'") auto
    from Cons.prems(1) Some r edge obtain objs2 where rest:
      "WriteSources_loop t p i oo m srcs (its @ edge, objs2, others) = Inr (its', objs', others')"
      by (cases "IsModuleMapType s"; cases outs') auto
    from Cons.IH[OF rest Cons.prems(2)]
    consider "item \<in> set its" | "item \<in> set edge"
      | "\<exists>s tool outs deps. s \<in> set srcs \<and> GetOutputFilesForSource t s = Some (tool, outs) \<and>
              tool \<noteq> kToolNone \<and> item = CompilerBuildLine [s] deps oo tool outs True"
      by auto
    then show ?thesis
    proof cases
      case 1
      then show ?thesis by simp
    next
      case 2
      from compile_lines_write_source[OF edge 2 assms(3)] Some r show ?thesis by auto
    next
      case 3
      then show ?thesis by auto
    qed
  qed
qed

lemma compile_lines_WriteSources:
  assumes "WriteSources t p i oo m = Inr (items, objs, others)"
    and "item \<in> set items" and "is_compile_line item"
  shows "\<exists>s tool outs deps. s \<in> set (sources t) \<and>
           GetOutputFilesForSource t s = Some (tool, outs) \<and>
           tool \<noteq> kToolNone \<and> item = CompilerBuildLine [s] deps oo tool outs True"
proof -
  from assms(1) obtain its where loop:
    "WriteSources_loop t p i oo m (sources t) ([], [], []) = Inr (its, objs, others)"
    and items: "items = its @ [Endl]"
    by (auto simp add: WriteSources_def split: sum.splits)
  from items assms(2,3) have "item \<in> set its" by auto
  from compile_lines_WriteSources_loop[OF loop this assms(3)] show ?thesis by simp
qed

text \<open>
  What \<^verbatim>\<open>Run\<close> does for a target without Swift sources, with the vectors that the PCH
  writer hands to the source writer.
\<close>

lemma Run_to_object_files_C_family:
  assumes "\<not> SwiftSourceUsed (source_types_used target)"
    and "Run_to_object_files target = Inr (items, obj_files, other_files, input_deps)"
  shows "\<exists>module_dep_info source_items source_objs.
           GetModuleDepsInformation target = Inr module_dep_info \<and>
           WriteSources target
             (if pch_outputs target PCH_MSVC \<noteq> [] then pch_outputs target PCH_MSVC
              else pch_outputs target PCH_GCC)
             input_deps (input_deps_stamp_dep target (length (sources target))) module_dep_info
             = Inr (source_items, source_objs, other_files) \<and>
           items = WriteCompilerVars target module_dep_info
                   @ [InputsStamp (length (sources target)),
                      InputDepsStamp (length (sources target))]
                   @ fst (WritePCHCommands target input_deps
                            (input_deps_stamp_dep target (length (sources target))))
                   @ source_items \<and>
           obj_files = source_objs @ pch_outputs target PCH_MSVC"
proof -
  let ?i = "inputs_stamp_dep target (length (sources target))"
  let ?o = "input_deps_stamp_dep target (length (sources target))"
  from assms(2) obtain m where m: "GetModuleDepsInformation target = Inr m"
    by (cases "GetModuleDepsInformation target") (auto simp add: Run_to_object_files_def)
  obtain pi po pg where pch: "WritePCHCommands target ?i ?o = (pi, po, pg)"
    by (cases "WritePCHCommands target ?i ?o") auto
  from WritePCHCommands_vectors[of target ?i ?o] pch
  have v: "po = pch_outputs target PCH_MSVC" "pg = pch_outputs target PCH_GCC" by simp_all
  let ?p = "if po \<noteq> [] then po else pg"
  from assms m pch obtain si so where
    ws: "WriteSources target ?p ?i ?o m = Inr (si, so, other_files)"
    and rest: "items = WriteCompilerVars target m
                 @ [InputsStamp (length (sources target)),
                    InputDepsStamp (length (sources target))] @ pi @ si"
      "obj_files = so @ po" "input_deps = ?i"
    by (cases "WriteSources target ?p ?i ?o m")
       (auto simp add: Run_to_object_files_def Let_def)
  from pch have "pi = fst (WritePCHCommands target ?i ?o)" by simp
  with m ws rest v show ?thesis by auto
qed





section \<open>Sources with outputs and no tool\<close>





section \<open>Swift and C-family targets\<close>

lemmas example6_defs = swift_toolchain_def swift_target_def swift_mixed_def

lemmas swift_defs = WriteSwiftSources_def swift_tool_outputs_def swift_partial_outputs_def
  swift_order_only_deps_def Append_unique_def push_back_unique_def object_outputs_def
  IsObjectType_def IsSwiftType_def

lemma no_swift_edge_lines:
  "filter is_compile_line items = [] \<Longrightarrow> filter is_swift_compile_edge items = []"
  using filter_compile_lines[of is_swift_compile_edge items] is_swift_compile_edge_line
  by fastforce

lemma no_swift_edge_WritePCHCommands:
  "filter is_swift_compile_edge (fst (WritePCHCommands t ideps oo)) = []"
proof -
  have "filter is_swift_compile_edge (fst (WritePCHCommands t ideps oo)) =
      filter is_swift_compile_edge (filter is_compile_line (fst (WritePCHCommands t ideps oo)))"
    using filter_compile_lines[of is_swift_compile_edge "fst (WritePCHCommands t ideps oo)"]
      is_swift_compile_edge_line
    by simp
  then show ?thesis
    unfolding compile_lines_WritePCHCommands by (simp add: pch_edge_def)
qed

text \<open>
  The source writer writes a build line with the Swift tool only for a source for which
  the target reports that tool.
\<close>

lemma no_swift_edge_WriteSources:
  assumes "WriteSources t p i oo m = Inr (its, objs, others)"
    and "\<forall>S\<in>set (sources t). \<forall>outs. GetOutputFilesForSource t S \<noteq> Some (kCToolSwift, outs)"
  shows "filter is_swift_compile_edge its = []"
proof -
  have "\<not> is_swift_compile_edge item" if "item \<in> set its" for item
  proof
    assume h: "is_swift_compile_edge item"
    from compile_lines_WriteSources[OF assms(1) that is_swift_compile_edge_line[OF h]]
    obtain s tool outs deps
      where "s \<in> set (sources t)" "GetOutputFilesForSource t s = Some (tool, outs)"
        "item = CompilerBuildLine [s] deps oo tool outs True"
      by blast
    with h assms(2) show False by auto
  qed
  then show ?thesis by (simp add: filter_empty_conv)
qed

lemma Run_swift_edges:
  assumes "Run_to_object_files target = Inr (items, obj_files, other_files, input_deps)"
  shows "\<exists>w'. Run target w = Inr w' \<and>
           filter is_swift_compile_edge (out w')
             = filter is_swift_compile_edge (out w) @ filter is_swift_compile_edge items"
  using assms
  by (cases "first_duplicate {} obj_files")
     (auto simp add: Run_def CheckForDuplicateObjectFiles_def
        no_swift_edge_lines[OF compile_lines_WriteLinkerStuff])

lemma WriteSwiftSources_edges:
  assumes "SwiftSourceUsed (source_types_used target)"
    and "tools (toolchain target) kCToolSwift = Some tool"
  shows "\<exists>items objs.
           WriteSwiftSources target input_deps order_only_deps = Inr (items, objs) \<and>
           filter is_swift_compile_edge items =
             [CompilerBuildLine (sources target) input_deps
                (swift_order_only_deps target order_only_deps) kCToolSwift
                [module_output_file target] False]"
  using assms by (simp add: WriteSwiftSources_def Let_def)

text \<open>
  A target that uses Swift sources, under a toolchain with a Swift tool, gets exactly one
  build line with the Swift tool: its output is the \<^verbatim>\<open>.swiftmodule\<close> file and its inputs
  are the sources of the target, as \<^verbatim>\<open>target_->sources()\<close> lists them.
\<close>

lemma Run_swift_target:
  assumes "SwiftSourceUsed (source_types_used target)"
    and "GetModuleDepsInformation target = Inr module_dep_info"
    and "tools (toolchain target) kCToolSwift = Some tool"
  shows "\<exists>items obj_files w'.
         Run_to_object_files target
           = Inr (items, obj_files, [], inputs_stamp_dep target (length (sources target))) \<and>
         Run target w = Inr w' \<and>
         filter is_swift_compile_edge (out w') =
           filter is_swift_compile_edge (out w)
           @ [CompilerBuildLine (sources target)
                (inputs_stamp_dep target (length (sources target)))
                (swift_order_only_deps target
                   (input_deps_stamp_dep target (length (sources target))))
                kCToolSwift [module_output_file target] False]"
proof -
  let ?i = "inputs_stamp_dep target (length (sources target))"
  let ?o = "input_deps_stamp_dep target (length (sources target))"
  let ?edge = "CompilerBuildLine (sources target) ?i (swift_order_only_deps target ?o)
                 kCToolSwift [module_output_file target] False"
  from assms WriteSwiftSources_edges[of target tool ?i ?o] obtain si so
    where sw: "WriteSwiftSources target ?i ?o = Inr (si, so)"
      and se: "filter is_swift_compile_edge si = [?edge]"
    by blast
  obtain pi po pg where pch: "WritePCHCommands target ?i ?o = (pi, po, pg)"
    by (cases "WritePCHCommands target ?i ?o") auto
  from no_swift_edge_WritePCHCommands[of target ?i ?o] pch
  have pe: "filter is_swift_compile_edge pi = []" by simp
  let ?items = "WriteCompilerVars target module_dep_info
                @ [InputsStamp (length (sources target)),
                   InputDepsStamp (length (sources target))] @ pi @ si"
  from assms sw pch have run: "Run_to_object_files target = Inr (?items, so @ po, [], ?i)"
    by (simp add: Run_to_object_files_def Let_def)
  from se pe have "filter is_swift_compile_edge ?items = [?edge]"
    by (simp add: no_swift_edge_lines[OF compile_lines_WriteCompilerVars])
  with Run_swift_edges[OF run, of w] run show ?thesis by auto
qed

text \<open>Scenario 5 of the specification: one Swift compile edge with both sources.\<close>

lemma Run_swift_target_scenario:
  "filter is_swift_compile_edge (out (projr (Run swift_target fresh_writer))) =
     [CompilerBuildLine [src ''a.swift'' SOURCE_SWIFT, src ''b.swift'' SOURCE_SWIFT] [] []
        kCToolSwift [''obj/foo/bar.swiftmodule''] False]"
proof -
  have s: "SwiftSourceUsed (source_types_used swift_target)"
    "GetModuleDepsInformation swift_target = Inr []"
    "tools (toolchain swift_target) kCToolSwift
         = Some \<lparr>category = C_Tool PCH_NONE, outputs = [''obj/foo/bar.swiftmodule''],
                 partial_outputs = [''{{source_name_part}}.o'']\<rparr>"
    by (simp_all add: example_defs example6_defs SwiftSourceUsed_def Get_def
        GetModuleDepsInformation_def)
  from Run_swift_target[OF s, of fresh_writer]
  obtain w' where w: "Run swift_target fresh_writer = Inr w'"
    and e: "filter is_swift_compile_edge (out w') =
           filter is_swift_compile_edge (out fresh_writer)
           @ [CompilerBuildLine (sources swift_target)
                (inputs_stamp_dep swift_target (length (sources swift_target)))
                (swift_order_only_deps swift_target
                   (input_deps_stamp_dep swift_target (length (sources swift_target))))
                kCToolSwift [module_output_file swift_target] False]"
    by blast
  have vals:
    "sources swift_target = [src ''a.swift'' SOURCE_SWIFT, src ''b.swift'' SOURCE_SWIFT]"
    "module_output_file swift_target = ''obj/foo/bar.swiftmodule''"
    "inputs_stamp_dep swift_target (Suc (Suc 0)) = []"
    "swift_order_only_deps swift_target (input_deps_stamp_dep swift_target (Suc (Suc 0))) = []"
    "out fresh_writer = []"
    by (simp_all add: example_defs example6_defs swift_defs)
  from w e show ?thesis by (simp add: vals)
qed

text \<open>
  A target that uses no Swift source goes through \<^verbatim>\<open>WriteSources\<close>, and gets no build
  line with the Swift tool when the target reports that tool for none of its sources.
\<close>

lemma Run_C_family_target:
  assumes "\<not> SwiftSourceUsed (source_types_used target)"
    and "Run_to_object_files target = Inr (items, obj_files, other_files, input_deps)"
    and "\<forall>S\<in>set (sources target). \<forall>outs.
           GetOutputFilesForSource target S \<noteq> Some (kCToolSwift, outs)"
  shows "\<exists>w'. Run target w = Inr w' \<and>
           filter is_swift_compile_edge (out w') = filter is_swift_compile_edge (out w)"
proof -
  from Run_to_object_files_C_family[OF assms(1,2)]
  obtain module_dep_info source_items source_objs pch_files
    where ws: "WriteSources target pch_files input_deps
                 (input_deps_stamp_dep target (length (sources target))) module_dep_info
                 = Inr (source_items, source_objs, other_files)"
      and items: "items = WriteCompilerVars target module_dep_info
                   @ [InputsStamp (length (sources target)),
                      InputDepsStamp (length (sources target))]
                   @ fst (WritePCHCommands target input_deps
                            (input_deps_stamp_dep target (length (sources target))))
                   @ source_items"
    by blast
  from items no_swift_edge_WriteSources[OF ws assms(3)]
  have "filter is_swift_compile_edge items = []"
    by (simp add: no_swift_edge_lines[OF compile_lines_WriteCompilerVars]
        no_swift_edge_WritePCHCommands)
  with Run_swift_edges[OF assms(2), of w] show ?thesis by simp
qed


end
